theory Spec2Isabelle
  imports Complex_Main
begin

section \<open>Text\<close>

text \<open>
  A source string is modelled by the bytes of its UTF-8 encoding, as a \<open>string\<close>: the
  no-break space U+00A0 is the two bytes \<open>0xC2 0xA0\<close>, the ideographic space U+3000
  the three bytes \<open>0xE3 0x80 0x80\<close>, and the Korean literals of the user interface are
  written byte by byte.
\<close>

definition digit_char :: "nat \<Rightarrow> char" where
  \<comment> \<open>only applied to numbers below ten\<close>
  "digit_char d = ''0123456789'' ! d"

fun show_nat :: "nat \<Rightarrow> string" where
  "show_nat n =
     (if n < 10 then [digit_char n]
      else show_nat (n div 10) @ [digit_char (n mod 10)])"

declare show_nat.simps [simp del]

definition show_int :: "int \<Rightarrow> string" where
  \<comment> \<open>how a template literal prints an integral number\<close>
  "show_int i = (if i < 0 then CHR ''-'' # show_nat (nat (- i)) else show_nat (nat i))"

definition white_space :: "string list" where
  \<comment> \<open>what \<open>String.prototype.trim\<close> removes, each code point in UTF-8: TAB, LF, VT, FF,
      CR, SPACE, U+00A0, U+1680, U+2000 to U+200A, U+2028, U+2029, U+202F, U+205F, U+3000
      and U+FEFF\<close>
  "white_space =
     [[CHR 0x09], [CHR 0x0A], [CHR 0x0B], [CHR 0x0C], [CHR 0x0D], [CHR 0x20],
      [CHR 0xC2, CHR 0xA0],
      [CHR 0xE1, CHR 0x9A, CHR 0x80],
      [CHR 0xE2, CHR 0x80, CHR 0x80], [CHR 0xE2, CHR 0x80, CHR 0x81],
      [CHR 0xE2, CHR 0x80, CHR 0x82], [CHR 0xE2, CHR 0x80, CHR 0x83],
      [CHR 0xE2, CHR 0x80, CHR 0x84], [CHR 0xE2, CHR 0x80, CHR 0x85],
      [CHR 0xE2, CHR 0x80, CHR 0x86], [CHR 0xE2, CHR 0x80, CHR 0x87],
      [CHR 0xE2, CHR 0x80, CHR 0x88], [CHR 0xE2, CHR 0x80, CHR 0x89],
      [CHR 0xE2, CHR 0x80, CHR 0x8A],
      [CHR 0xE2, CHR 0x80, CHR 0xA8], [CHR 0xE2, CHR 0x80, CHR 0xA9],
      [CHR 0xE2, CHR 0x80, CHR 0xAF],
      [CHR 0xE2, CHR 0x81, CHR 0x9F],
      [CHR 0xE3, CHR 0x80, CHR 0x80],
      [CHR 0xEF, CHR 0xBB, CHR 0xBF]]"

definition starts_with :: "string \<Rightarrow> string \<Rightarrow> bool" where
  \<comment> \<open>\<open>s\<close> begins with the bytes \<open>w\<close>\<close>
  "starts_with s w \<longleftrightarrow> w \<noteq> [] \<and> take (length w) s = w"

function strip :: "string list \<Rightarrow> string \<Rightarrow> string" where
  \<comment> \<open>removes from the front of \<open>s\<close> every leading occurrence of one of \<open>ws\<close>\<close>
  "strip ws s =
     (case find (starts_with s) ws of
        None \<Rightarrow> s
      | Some w \<Rightarrow> strip ws (drop (length w) s))"
  by pat_completeness auto

termination
proof (relation "measure (\<lambda>(ws, s). length s)")
  show "wf (measure (\<lambda>(ws, s). length s))" by simp
next
  fix ws :: "string list" and s w :: string
  assume "find (starts_with s) ws = Some w"
  then have "starts_with s w"
    by (auto simp add: find_Some_iff)
  then have "w \<noteq> []" and "take (length w) s = w"
    by (simp_all add: starts_with_def)
  then have "s \<noteq> []" by auto
  with \<open>w \<noteq> []\<close> show "((ws, drop (length w) s), (ws, s)) \<in> measure (\<lambda>(ws, s). length s)"
    by simp
qed

declare strip.simps [simp del]

definition js_trim :: "string \<Rightarrow> string" where
  \<comment> \<open>\<open>String.prototype.trim\<close>: white space goes from both ends; at the end of a string a
      code point is found by its bytes in reverse\<close>
  "js_trim s = rev (strip (map rev white_space) (rev (strip white_space s)))"

section \<open>utils/dateFormatter: formatDCDate\<close>

definition just_now :: string where
  \<comment> \<open>the literal returned for a difference of less than a minute\<close>
  "just_now = [CHR 0xEB, CHR 0xB0, CHR 0xA9, CHR 0xEA, CHR 0xB8, CHR 0x88, CHR 0x20,
               CHR 0xEC, CHR 0xA0, CHR 0x84]"

definition minutes_ago :: string where
  \<comment> \<open>the suffix of the relative minute form\<close>
  "minutes_ago = [CHR 0xEB, CHR 0xB6, CHR 0x84, CHR 0x20, CHR 0xEC, CHR 0xA0, CHR 0x84]"

definition hours_ago :: string where
  \<comment> \<open>the suffix of the relative hour form\<close>
  "hours_ago = [CHR 0xEC, CHR 0x8B, CHR 0x9C, CHR 0xEA, CHR 0xB0, CHR 0x84, CHR 0x20,
                CHR 0xEC, CHR 0xA0, CHR 0x84]"

text \<open>
  \<open>formatDCDate\<close> reads the clock and parses its argument with the platform's
  \<open>Date\<close>. Both are inputs of the model: \<open>now\<close> is the clock reading in milliseconds,
  \<open>Date_parse\<close> gives the time value of \<open>new Date(dateStr)\<close> (\<open>None\<close> for an invalid
  date, whose time value is NaN), and \<open>toLocaleDateString\<close> is the platform's formatter
  with the fixed \<open>ko-KR\<close> options. Time values are whole milliseconds, so
  \<open>Math.floor (diffMs / 60_000)\<close> is the floor division of integers. With NaN every
  comparison is false and the function falls through to the formatter.
\<close>

definition formatDCDate ::
  "(string \<Rightarrow> int option) \<Rightarrow> (int option \<Rightarrow> string) \<Rightarrow> int \<Rightarrow> string \<Rightarrow> string" where
  "formatDCDate Date_parse toLocaleDateString now dateStr =
     (case Date_parse dateStr of
        None \<Rightarrow> toLocaleDateString None
      | Some date \<Rightarrow>
          (let diffMs = now - date;
               diffMinutes = diffMs div 60000;
               diffHours = diffMs div 3600000
           in if diffMinutes < 1 then just_now
              else if diffMinutes < 60 then show_int diffMinutes @ minutes_ago
              else if diffHours < 24 then show_int diffHours @ hours_ago
              else toLocaleDateString (Some date)))"

section \<open>electron/python-bridge/sidecar\<close>

text \<open>
  The module keeps one variable, \<open>pythonProcess\<close>. The model adds what the module
  does to the outside: the \<open>spawn\<close> calls it made (a child is named by its position in
  that list), the children it sent SIGTERM to, and the lines it passed to the two callbacks.
  The Electron and Node values read by the module are the fields of \<open>host\<close>.
\<close>

datatype callback_line = Log string | Err string

record host =
  isPackaged :: bool
  resourcesPath :: string
  dirname :: string
  platform :: string
  path_join :: "string list \<Rightarrow> string"

record sidecar =
  pythonProcess :: "nat option"
  spawned :: "(string \<times> string list) list"
  signalled :: "nat list"
  emitted :: "callback_line list"

definition sidecar_init :: sidecar where
  "sidecar_init = \<lparr>pythonProcess = None, spawned = [], signalled = [], emitted = []\<rparr>"

definition getBackendPath :: "host \<Rightarrow> string" where
  "getBackendPath h =
     (if isPackaged h then path_join h [resourcesPath h, ''backend'', ''main.py'']
      else path_join h [dirname h, ''..'', ''..'', ''..'', ''backend'', ''main.py''])"

definition startPythonSidecar :: "host \<Rightarrow> sidecar \<Rightarrow> sidecar" where
  "startPythonSidecar h s =
     (case pythonProcess s of
        Some p \<Rightarrow> s\<lparr>emitted := emitted s @ [Log ''[sidecar] Python backend already running.'']\<rparr>
      | None \<Rightarrow>
          (let backendPath = getBackendPath h;
               pythonBin = (if platform h = ''win32'' then ''python'' else ''python3'')
           in s\<lparr>emitted := emitted s @
                    [Log (''[sidecar] Starting: '' @ pythonBin @ '' '' @ backendPath)],
                 spawned := spawned s @ [(pythonBin, [backendPath])],
                 pythonProcess := Some (length (spawned s))\<rparr>))"

text \<open>The four listeners that \<open>startPythonSidecar\<close> registers on the child.\<close>

definition on_stdout :: "string \<Rightarrow> sidecar \<Rightarrow> sidecar" where
  "on_stdout data s = s\<lparr>emitted := emitted s @ [Log (''[backend] '' @ js_trim data)]\<rparr>"

definition on_stderr :: "string \<Rightarrow> sidecar \<Rightarrow> sidecar" where
  "on_stderr data s = s\<lparr>emitted := emitted s @ [Err (''[backend:err] '' @ js_trim data)]\<rparr>"

definition show_code :: "int option \<Rightarrow> string" where
  \<comment> \<open>the exit code in a template literal: a number, or null after a signal\<close>
  "show_code code = (case code of None \<Rightarrow> ''null'' | Some c \<Rightarrow> show_int c)"

definition on_close :: "int option \<Rightarrow> sidecar \<Rightarrow> sidecar" where
  "on_close code s =
     s\<lparr>emitted := emitted s @
           [Log (''[sidecar] Python backend exited with code '' @ show_code code)],
        pythonProcess := None\<rparr>"

definition on_error :: "string \<Rightarrow> sidecar \<Rightarrow> sidecar" where
  "on_error msg s =
     s\<lparr>emitted := emitted s @ [Err (''[sidecar] Failed to start Python: '' @ msg)],
        pythonProcess := None\<rparr>"

definition stopPythonSidecar :: "sidecar \<Rightarrow> sidecar" where
  "stopPythonSidecar s =
     (case pythonProcess s of
        None \<Rightarrow> s
      | Some p \<Rightarrow> s\<lparr>signalled := signalled s @ [p], pythonProcess := None\<rparr>)"

definition isSidecarRunning :: "sidecar \<Rightarrow> bool" where
  "isSidecarRunning s \<longleftrightarrow> pythonProcess s \<noteq> None"

text \<open>
  What happens to the module over time: calls of its exported functions, and events of
  the children. An event of a child reaches the listeners registered on that child; a
  child that was never spawned has none.
\<close>

datatype event =
    StartPythonSidecar
  | StopPythonSidecar
  | Stdout nat string
  | Stderr nat string
  | Close nat "int option"
  | SpawnError nat string

fun step :: "host \<Rightarrow> sidecar \<Rightarrow> event \<Rightarrow> sidecar" where
  "step h s StartPythonSidecar = startPythonSidecar h s"
| "step h s StopPythonSidecar = stopPythonSidecar s"
| "step h s (Stdout n data) = (if n < length (spawned s) then on_stdout data s else s)"
| "step h s (Stderr n data) = (if n < length (spawned s) then on_stderr data s else s)"
| "step h s (Close n code) = (if n < length (spawned s) then on_close code s else s)"
| "step h s (SpawnError n msg) = (if n < length (spawned s) then on_error msg s else s)"

definition run :: "host \<Rightarrow> event list \<Rightarrow> sidecar" where
  "run h evs = foldl (step h) sidecar_init evs"

definition tracked :: "sidecar \<Rightarrow> nat set" where
  \<comment> \<open>the children the module holds a reference to\<close>
  "tracked s = set_option (pythonProcess s)"

fun ended_from :: "host \<Rightarrow> sidecar \<Rightarrow> event list \<Rightarrow> nat set" where
  \<comment> \<open>the children whose close or error event has been delivered\<close>
  "ended_from h s [] = {}"
| "ended_from h s (ev # evs) =
     (case ev of
        Close n code \<Rightarrow> (if n < length (spawned s) then {n} else {})
      | SpawnError n msg \<Rightarrow> (if n < length (spawned s) then {n} else {})
      | _ \<Rightarrow> {}) \<union> ended_from h (step h s ev) evs"

definition sidecar_alive :: "host \<Rightarrow> event list \<Rightarrow> nat \<Rightarrow> bool" where
  \<comment> \<open>after the events \<open>evs\<close>, child \<open>n\<close> has been started and has not since been stopped
      (sent SIGTERM by \<open>stopPythonSidecar\<close>), has not exited and has not failed to spawn\<close>
  "sidecar_alive h evs n \<longleftrightarrow>
     n < length (spawned (run h evs)) \<and>
     n \<notin> set (signalled (run h evs)) \<and>
     n \<notin> ended_from h sidecar_init evs"

text \<open>
  An invariant of the module, relative to the set \<open>E\<close> of children that have ended:
  the tracked child is the one spawned last, it has not been signalled and has not ended.
\<close>

definition well_tracked :: "sidecar \<Rightarrow> nat set \<Rightarrow> bool" where
  "well_tracked s E \<longleftrightarrow>
     (\<forall>p \<in> E. p < length (spawned s)) \<and>
     (\<forall>p \<in> set (signalled s). p < length (spawned s)) \<and>
     (\<forall>n. pythonProcess s = Some n \<longrightarrow>
        Suc n = length (spawned s) \<and> n \<notin> E \<and> n \<notin> set (signalled s))"

text \<open>
  Modelled from the spec: the handler of the \<open>crawl:status\<close> channel (the main
  process's IPC handlers) is not among the sources. Section 6 gives the reply of
  \<open>status()\<close>, which is \<open>getStatus\<close> in the preload script, the shape
  \<open>{ sidecarRunning: bool }\<close>, and the preload script declares the same type; the flag
  is taken from \<open>isSidecarRunning\<close>.
\<close>

record status_reply =
  sidecarRunning :: bool

definition getStatus :: "sidecar \<Rightarrow> status_reply" where
  \<comment> \<open>Modelled from the spec: \<open>status()\<close> returns \<open>{ sidecarRunning: bool }\<close>\<close>
  "getStatus s = \<lparr>sidecarRunning = isSidecarRunning s\<rparr>"

section \<open>JavaScript values, thrown values and the transports\<close>

text \<open>
  What arrives from the network or from the Electron bridge is untyped at run time, so the
  hooks are modelled on JavaScript values. An object is the list of its own properties.
  The request body handed to \<open>JSON.stringify\<close> is kept as the value that is serialised.
\<close>

datatype jsval =
    JUndefined
  | JNull
  | JBool bool
  | JNum real
  | JStr string
  | JArr "jsval list"
  | JObj "(string \<times> jsval) list"

definition nullish :: "jsval \<Rightarrow> bool" where
  "nullish v \<longleftrightarrow> v = JUndefined \<or> v = JNull"

definition coalesce :: "jsval \<Rightarrow> jsval \<Rightarrow> jsval" where
  \<comment> \<open>the operator \<open>??\<close>\<close>
  "coalesce v d = (if nullish v then d else v)"

definition js_get :: "jsval \<Rightarrow> string \<Rightarrow> jsval" where
  \<comment> \<open>the property read \<open>v.k\<close> on a value that is neither null nor undefined; none of
      the names read by the sources is an inherited property\<close>
  "js_get v k =
     (case v of
        JObj fs \<Rightarrow> (case map_of fs k of None \<Rightarrow> JUndefined | Some x \<Rightarrow> x)
      | JArr xs \<Rightarrow> (if k = ''length'' then JNum (real (length xs)) else JUndefined)
      | JStr cs \<Rightarrow> (if k = ''length'' then JNum (real (length cs)) else JUndefined)
      | _ \<Rightarrow> JUndefined)"

definition truthy :: "jsval \<Rightarrow> bool" where
  "truthy v =
     (case v of
        JUndefined \<Rightarrow> False
      | JNull \<Rightarrow> False
      | JBool b \<Rightarrow> b
      | JNum x \<Rightarrow> x \<noteq> 0
      | JStr cs \<Rightarrow> cs \<noteq> []
      | _ \<Rightarrow> True)"

datatype thrown =
    ErrorObj string
  | NonError jsval

definition TypeError_read :: "jsval \<Rightarrow> string \<Rightarrow> thrown" where
  \<comment> \<open>reading a property of null or undefined throws a TypeError (an Error instance; the
      message is the engine's, here V8's)\<close>
  "TypeError_read v k =
     ErrorObj (''Cannot read properties of '' @ (if v = JNull then ''null'' else ''undefined'') @
       '' (reading '' @ [CHR 0x27] @ k @ [CHR 0x27] @ '')'')"

definition catch_message :: "string \<Rightarrow> thrown \<Rightarrow> string" where
  \<comment> \<open>\<open>err instanceof Error ? err.message : fallback\<close>\<close>
  "catch_message fallback err = (case err of ErrorObj m \<Rightarrow> m | NonError v \<Rightarrow> fallback)"

record request =
  http_method :: string
  url :: string
  headers :: "(string \<times> string) list"
  body :: jsval

record response =
  http_status :: nat
  body_text :: "thrown + string"
  body_json :: "thrown + jsval"

definition ok :: "response \<Rightarrow> bool" where
  \<comment> \<open>\<open>response.ok\<close>\<close>
  "ok r \<longleftrightarrow> 200 \<le> http_status r \<and> http_status r \<le> 299"

text \<open>
  One call of a hook meets one of two transports: the Electron bridge
  (\<open>window.fingerPrince\<close> is present; its promise resolves with a value or rejects), or
  the web (\<open>fetch\<close> resolves with a response or rejects). The calls a hook makes to the
  outside are recorded.
\<close>

datatype transport =
    Bridge "thrown + jsval"
  | Web "thrown + response"

datatype call =
    Fetch request
  | BridgeSearch string real
  | BridgeCrawl string real

section \<open>shared/hooks/useSearch\<close>

record SearchState =
  data :: jsval
  isLoading :: bool
  error :: "string option"

definition search_init :: SearchState where
  "search_init = \<lparr>data = JNull, isLoading = False, error = None\<rparr>"

definition unknown_error :: string where
  \<comment> \<open>the fallback message of the search hook\<close>
  "unknown_error = [CHR 0xEC, CHR 0x95, CHR 0x8C, CHR 0x20, CHR 0xEC, CHR 0x88, CHR 0x98, CHR 0x20,
     CHR 0xEC, CHR 0x97, CHR 0x86, CHR 0xEB, CHR 0x8A, CHR 0x94, CHR 0x20, CHR 0xEC, CHR 0x98,
     CHR 0xA4, CHR 0xEB, CHR 0xA5, CHR 0x98]"

definition search_failed_prefix :: string where
  \<comment> \<open>the start of the message for a response that is not ok, up to the bracket\<close>
  "search_failed_prefix = [CHR 0xEA, CHR 0xB2, CHR 0x80, CHR 0xEC, CHR 0x83, CHR 0x89, CHR 0x20,
     CHR 0xEC, CHR 0x8B, CHR 0xA4, CHR 0xED, CHR 0x8C, CHR 0xA8, CHR 0x20, CHR 0x28]"

definition search_loading :: SearchState where
  "search_loading = \<lparr>data = JNull, isLoading = True, error = None\<rparr>"

definition search_error :: "thrown \<Rightarrow> SearchState" where
  \<comment> \<open>the state set by the catch block\<close>
  "search_error err =
     \<lparr>data = JNull, isLoading = False, error = Some (catch_message unknown_error err)\<rparr>"

definition smart_search_request :: "string \<Rightarrow> string \<Rightarrow> real \<Rightarrow> request" where
  "smart_search_request apiBase query topK =
     \<lparr>http_method = ''POST'',
      url = apiBase @ ''/smart-search'',
      headers = [(''Content-Type'', ''application/json'')],
      body = JObj [(''query'', JStr query), (''top_k'', JNum topK),
                   (''google_results'', JNum 10), (''gallery_pages'', JNum 2)]\<rparr>"

definition to_SmartSearchResult :: "jsval \<Rightarrow> thrown + jsval" where
  \<comment> \<open>the conversion from snake case to camel case; the first read, \<open>json.posts\<close>, throws
      on null and undefined\<close>
  "to_SmartSearchResult json =
     (if nullish json then Inl (TypeError_read json ''posts'')
      else Inr (JObj
        [(''posts'', js_get json ''posts''),
         (''synthesizedAnswer'', js_get json ''synthesized_answer''),
         (''persona'', js_get json ''persona''),
         (''queryTime'', js_get json ''query_time''),
         (''discoveredGalls'', coalesce (js_get json ''discovered_galls'') (JArr [])),
         (''postsCrawled'', coalesce (js_get json ''posts_crawled'') (JNum 0))]))"

definition search_web :: "thrown + response \<Rightarrow> SearchState" where
  \<comment> \<open>the state set once \<open>fetch\<close> has settled\<close>
  "search_web r =
     (case r of
        Inl err \<Rightarrow> search_error err
      | Inr resp \<Rightarrow>
          if \<not> ok resp then
            (case body_text resp of
               Inl err \<Rightarrow> search_error err
             | Inr txt \<Rightarrow>
                 search_error (ErrorObj
                   (search_failed_prefix @ show_nat (http_status resp) @ ''): '' @ txt)))
          else
            (case body_json resp of
               Inl err \<Rightarrow> search_error err
             | Inr json \<Rightarrow>
                 (case to_SmartSearchResult json of
                    Inl err \<Rightarrow> search_error err
                  | Inr d \<Rightarrow> \<lparr>data = d, isLoading = False, error = None\<rparr>)))"

definition search_bridge :: "thrown + jsval \<Rightarrow> SearchState" where
  \<comment> \<open>the state set once the bridge's promise has settled\<close>
  "search_bridge r =
     (case r of
        Inl err \<Rightarrow> search_error err
      | Inr result \<Rightarrow> \<lparr>data = result, isLoading = False, error = None\<rparr>)"

text \<open>
  \<open>search\<close> returns the calls it made and the states it set, in order. \<open>topK\<close> is
  \<open>None\<close> when the argument is left out (the default is 5). Every \<open>setState\<close> of
  the hook replaces the whole state, so what a call sets does not depend on the state
  before it. One call is modelled at a time; calls that overlap in time are not.
\<close>

definition search ::
  "string \<Rightarrow> transport \<Rightarrow> string \<Rightarrow> real option \<Rightarrow> call list \<times> SearchState list" where
  "search apiBase env query topK_arg =
     (let topK = (case topK_arg of None \<Rightarrow> 5 | Some k \<Rightarrow> k)
      in if js_trim query = [] then ([], [])
         else
           (case env of
              Bridge r \<Rightarrow> ([BridgeSearch query topK], [search_loading, search_bridge r])
            | Web r \<Rightarrow>
                ([Fetch (smart_search_request apiBase query topK)],
                 [search_loading, search_web r])))"

definition search_reset :: SearchState where
  "search_reset = \<lparr>data = JNull, isLoading = False, error = None\<rparr>"

definition after :: "'s \<Rightarrow> 'c list \<times> 's list \<Rightarrow> 's" where
  \<comment> \<open>the hook's state once the call is over: the last state set, or the old state\<close>
  "after s0 r = last (s0 # snd r)"

definition fetches :: "call list \<times> 's list \<Rightarrow> request list" where
  \<comment> \<open>the HTTP requests among the calls\<close>
  "fetches r = concat (map (\<lambda>c. case c of Fetch q \<Rightarrow> [q] | _ \<Rightarrow> []) (fst r))"

section \<open>shared/hooks/useCrawl\<close>

datatype CrawlStatus = Idle | Running | Done | Error

record CrawlState =
  status :: CrawlStatus
  message :: jsval
  postsIndexed :: jsval
  crawlError :: "string option"

definition crawl_init :: CrawlState where
  "crawl_init = \<lparr>status = Idle, message = JStr [], postsIndexed = JNum 0, crawlError = None\<rparr>"

definition crawl_starting :: string where
  \<comment> \<open>the message of the running state\<close>
  "crawl_starting = [CHR 0xED, CHR 0x81, CHR 0xAC, CHR 0xEB, CHR 0xA1, CHR 0xA4, CHR 0xEB, CHR 0xA7,
     CHR 0x81, CHR 0x20, CHR 0xEC, CHR 0x8B, CHR 0x9C, CHR 0xEC, CHR 0x9E, CHR 0x91, CHR 0x2E,
     CHR 0x2E, CHR 0x2E]"

definition crawl_done_prefix :: string where
  "crawl_done_prefix = [CHR 0xEC, CHR 0x99, CHR 0x84, CHR 0xEB, CHR 0xA3, CHR 0x8C, CHR 0x3A, CHR 0x20]"

definition crawl_done_suffix :: string where
  "crawl_done_suffix = [CHR 0xEA, CHR 0xB0, CHR 0x9C, CHR 0x20, CHR 0xEA, CHR 0xB2, CHR 0x8C, CHR 0xEC,
     CHR 0x8B, CHR 0x9C, CHR 0xEB, CHR 0xAC, CHR 0xBC, CHR 0x20, CHR 0xEC, CHR 0x9D, CHR 0xB8,
     CHR 0xEB, CHR 0x8D, CHR 0xB1, CHR 0xEC, CHR 0x8B, CHR 0xB1]"

definition crawl_failed :: string where
  \<comment> \<open>the fallback message of the crawl hook\<close>
  "crawl_failed = [CHR 0xED, CHR 0x81, CHR 0xAC, CHR 0xEB, CHR 0xA1, CHR 0xA4, CHR 0xEB, CHR 0xA7,
     CHR 0x81, CHR 0x20, CHR 0xEC, CHR 0x8B, CHR 0xA4, CHR 0xED, CHR 0x8C, CHR 0xA8]"

definition crawl_running :: CrawlState where
  "crawl_running =
     \<lparr>status = Running, message = JStr crawl_starting, postsIndexed = JNum 0, crawlError = None\<rparr>"

definition crawl_error :: "thrown \<Rightarrow> CrawlState" where
  \<comment> \<open>the state set by the catch block\<close>
  "crawl_error err =
     \<lparr>status = Error, message = JStr [], postsIndexed = JNum 0,
      crawlError = Some (catch_message crawl_failed err)\<rparr>"

definition crawl_request :: "string \<Rightarrow> string \<Rightarrow> real \<Rightarrow> request" where
  "crawl_request apiBase gallId maxPages =
     \<lparr>http_method = ''POST'',
      url = apiBase @ ''/crawl'',
      headers = [(''Content-Type'', ''application/json'')],
      body = JObj [(''gall_id'', JStr gallId), (''max_pages'', JNum maxPages)]\<rparr>"

text \<open>
  \<open>ToString\<close> is the conversion a template literal applies to a value; it is an input
  of the model.
\<close>

definition crawl_bridge :: "(jsval \<Rightarrow> string) \<Rightarrow> thrown + jsval \<Rightarrow> CrawlState" where
  "crawl_bridge ToString r =
     (case r of
        Inl err \<Rightarrow> crawl_error err
      | Inr result \<Rightarrow>
          if nullish result then crawl_error (TypeError_read result ''postsIndexed'')
          else
            \<lparr>status = Done,
             message = JStr (crawl_done_prefix @ ToString (js_get result ''postsIndexed'') @
                             crawl_done_suffix),
             postsIndexed = js_get result ''postsIndexed'',
             crawlError = None\<rparr>)"

definition crawl_web :: "thrown + response \<Rightarrow> CrawlState" where
  "crawl_web r =
     (case r of
        Inl err \<Rightarrow> crawl_error err
      | Inr resp \<Rightarrow>
          if \<not> ok resp then
            (case body_text resp of
               Inl err \<Rightarrow> crawl_error err
             | Inr txt \<Rightarrow>
                 crawl_error (ErrorObj
                   (''Crawl failed ('' @ show_nat (http_status resp) @ ''): '' @ txt)))
          else
            (case body_json resp of
               Inl err \<Rightarrow> crawl_error err
             | Inr json \<Rightarrow>
                 if nullish json then crawl_error (TypeError_read json ''message'')
                 else
                   \<lparr>status = Done,
                    message = js_get json ''message'',
                    postsIndexed = js_get json ''posts_indexed'',
                    crawlError = None\<rparr>))"

definition startCrawl ::
  "string \<Rightarrow> (jsval \<Rightarrow> string) \<Rightarrow> transport \<Rightarrow> string \<Rightarrow> real option \<Rightarrow>
     call list \<times> CrawlState list" where
  "startCrawl apiBase ToString env gallId maxPages_arg =
     (let maxPages = (case maxPages_arg of None \<Rightarrow> 5 | Some k \<Rightarrow> k)
      in if js_trim gallId = [] then ([], [])
         else
           (case env of
              Bridge r \<Rightarrow>
                ([BridgeCrawl gallId maxPages], [crawl_running, crawl_bridge ToString r])
            | Web r \<Rightarrow>
                ([Fetch (crawl_request apiBase gallId maxPages)],
                 [crawl_running, crawl_web r])))"

definition crawl_reset :: CrawlState where
  "crawl_reset = \<lparr>status = Idle, message = JStr [], postsIndexed = JNum 0, crawlError = None\<rparr>"

section \<open>web/src/App and shared/components/DCBoard\<close>

text \<open>
  What the page draws. Rendering can throw: reading a property of null or undefined,
  calling \<open>map\<close> on a value that has none, and handing React a plain object as a child
  all throw, and then nothing of the page is drawn (\<open>None\<close>). A string or a number
  is drawn as text, a boolean, null and undefined as nothing, an array element by element.
\<close>

fun renderable :: "jsval \<Rightarrow> bool" where
  "renderable (JObj fs) = False"
| "renderable (JArr xs) = list_all renderable xs"
| "renderable v = True"

definition js_gt0 :: "(jsval \<Rightarrow> bool) \<Rightarrow> jsval \<Rightarrow> bool" where
  \<comment> \<open>\<open>v > 0\<close>; for a string, an array or an object the outcome of the conversion to a
      number is an input of the model\<close>
  "js_gt0 coerced v =
     (case v of
        JNum x \<Rightarrow> 0 < x
      | JBool b \<Rightarrow> b
      | JNull \<Rightarrow> False
      | JUndefined \<Rightarrow> False
      | _ \<Rightarrow> coerced v)"

datatype 'p board_body = LoadingSkeleton | EmptyState string | PostList "'p list"

text \<open>
  \<open>DCBoard\<close>: the header reads \<open>posts.length\<close> when there is a query, then the body is
  the loading skeleton, the empty state, or one \<open>DCPost\<close> per post. \<open>renderPost\<close>
  stands for the rendering of one post by \<open>DCPost\<close> (the element, or \<open>None\<close> when it
  throws) and is an input of the model; the key \<open>post.id\<close> is read before it.
\<close>

definition DCBoard ::
  "(jsval \<Rightarrow> 'p option) \<Rightarrow> jsval \<Rightarrow> bool \<Rightarrow> string \<Rightarrow> 'p board_body option" where
  "DCBoard renderPost posts loading query =
     (if query \<noteq> [] \<and> (nullish posts \<or> \<not> renderable (js_get posts ''length'')) then None
      else if loading then Some LoadingSkeleton
      else if nullish posts then None
      else if js_get posts ''length'' = JNum 0 then Some (EmptyState query)
      else
        (case posts of
           JArr ps \<Rightarrow>
             map_option PostList
               (those (map (\<lambda>post. if nullish post then None else renderPost post) ps))
         | _ \<Rightarrow> None))"

definition board_posts :: "SearchState \<Rightarrow> jsval" where
  \<comment> \<open>\<open>data?.posts ?? []\<close>\<close>
  "board_posts st =
     coalesce (if nullish (data st) then JUndefined else js_get (data st) ''posts'') (JArr [])"

definition galls_box ::
  "(jsval \<Rightarrow> bool) \<Rightarrow> jsval \<Rightarrow> (jsval list \<times> jsval \<times> jsval) option option" where
  \<comment> \<open>the badges of the discovered galleries with the two figures beside them, drawn when
      \<open>data && data.discoveredGalls && data.discoveredGalls.length > 0\<close>\<close>
  "galls_box coerced d =
     (if \<not> truthy d then Some None
      else if \<not> truthy (js_get d ''discoveredGalls'') then Some None
      else if \<not> js_gt0 coerced (js_get (js_get d ''discoveredGalls'') ''length'') then Some None
      else
        (case js_get d ''discoveredGalls'' of
           JArr gs \<Rightarrow>
             if list_all renderable gs \<and> renderable (js_get d ''postsCrawled'') \<and>
                renderable (js_get d ''queryTime'')
             then Some (Some (gs, js_get d ''postsCrawled'', js_get d ''queryTime''))
             else None
         | _ \<Rightarrow> None))"

definition answer_box :: "jsval \<Rightarrow> (jsval \<times> jsval) option option" where
  \<comment> \<open>the summary box with the persona and the answer, drawn when
      \<open>data?.synthesizedAnswer\<close> is truthy\<close>
  "answer_box d =
     (if \<not> truthy (if nullish d then JUndefined else js_get d ''synthesizedAnswer'')
      then Some None
      else if renderable (js_get d ''persona'') \<and> renderable (js_get d ''synthesizedAnswer'')
      then Some (Some (js_get d ''persona'', js_get d ''synthesizedAnswer''))
      else None)"

definition error_box :: "string option \<Rightarrow> string option" where
  \<comment> \<open>the error box, drawn when \<open>error\<close> is truthy\<close>
  "error_box e = (case e of None \<Rightarrow> None | Some m \<Rightarrow> if m = [] then None else Some m)"

record crawl_panel =
  start_disabled :: bool
  message_shown :: "jsval option"
  error_shown :: "string option"

definition crawl_box :: "CrawlState \<Rightarrow> crawl_panel option" where
  \<comment> \<open>the manual crawl panel: the start button, the message and the error\<close>
  "crawl_box c =
     (if truthy (message c) \<and> \<not> renderable (message c) then None
      else Some
        \<lparr>start_disabled = (status c = Running),
         message_shown = (if truthy (message c) then Some (message c) else None),
         error_shown = error_box (crawlError c)\<rparr>)"

record 'p page =
  pg_crawl :: "crawl_panel option"
  pg_progress :: bool
  pg_galls :: "(jsval list \<times> jsval \<times> jsval) option"
  pg_answer :: "(jsval \<times> jsval) option"
  pg_error :: "string option"
  pg_board :: "'p board_body"

text \<open>
  \<open>App\<close>: the page for the text in the search field, the flag of the crawl panel and the
  states of the two hooks. The boxes are what is recorded; a falsy value left over by
  \<open>&&\<close> draws at most its own text.
\<close>

definition App ::
  "(jsval \<Rightarrow> bool) \<Rightarrow> (jsval \<Rightarrow> 'p option) \<Rightarrow> string \<Rightarrow> bool \<Rightarrow> SearchState \<Rightarrow> CrawlState \<Rightarrow>
     'p page option" where
  "App coerced renderPost shown showCrawlPanel st c =
     (case (if showCrawlPanel then map_option Some (crawl_box c) else Some None) of
        None \<Rightarrow> None
      | Some panel \<Rightarrow>
          (case galls_box coerced (data st) of
             None \<Rightarrow> None
           | Some badges \<Rightarrow>
               (case answer_box (data st) of
                  None \<Rightarrow> None
                | Some answer \<Rightarrow>
                    (case DCBoard renderPost (board_posts st) (isLoading st) shown of
                       None \<Rightarrow> None
                     | Some b \<Rightarrow>
                         Some \<lparr>pg_crawl = panel, pg_progress = isLoading st, pg_galls = badges,
                               pg_answer = answer, pg_error = error_box (error st),
                               pg_board = b\<rparr>))))"

definition crawl_button_disabled :: "CrawlState \<Rightarrow> bool" where
  "crawl_button_disabled st \<longleftrightarrow> status st = Running"

text \<open>
  A click on the crawl button runs \<open>resetCrawl(); startCrawl(gallId)\<close>; a disabled
  button does not react to clicks.
\<close>

definition crawl_click ::
  "string \<Rightarrow> (jsval \<Rightarrow> string) \<Rightarrow> transport \<Rightarrow> CrawlState \<Rightarrow> string \<Rightarrow>
     call list \<times> CrawlState list" where
  "crawl_click apiBase ToString env st gallId =
     (if crawl_button_disabled st then ([], [])
      else (fst (startCrawl apiBase ToString env gallId None),
            crawl_reset # snd (startCrawl apiBase ToString env gallId None)))"

section \<open>Shapes and outcomes named by the properties\<close>

definition is_array :: "jsval \<Rightarrow> bool" where
  "is_array v = (case v of JArr xs \<Rightarrow> True | _ \<Rightarrow> False)"

definition is_string :: "jsval \<Rightarrow> bool" where
  "is_string v = (case v of JStr cs \<Rightarrow> True | _ \<Rightarrow> False)"

definition is_number :: "jsval \<Rightarrow> bool" where
  "is_number v = (case v of JNum x \<Rightarrow> True | _ \<Rightarrow> False)"

definition typed_shape :: "jsval \<Rightarrow> bool" where
  \<comment> \<open>a search result in which only \<open>synthesizedAnswer\<close> may be null: \<open>posts\<close> an array,
      \<open>persona\<close> a string, \<open>queryTime\<close> a number, the two counts neither null nor
      undefined\<close>
  "typed_shape d \<longleftrightarrow>
     \<not> nullish d \<and>
     is_array (js_get d ''posts'') \<and>
     (is_string (js_get d ''synthesizedAnswer'') \<or> js_get d ''synthesizedAnswer'' = JNull) \<and>
     is_string (js_get d ''persona'') \<and>
     is_number (js_get d ''queryTime'') \<and>
     \<not> nullish (js_get d ''discoveredGalls'') \<and>
     \<not> nullish (js_get d ''postsCrawled'')"

definition string_list :: "jsval \<Rightarrow> bool" where
  \<comment> \<open>an array of strings, the contract's type of the discovered galleries\<close>
  "string_list v = (case v of JArr xs \<Rightarrow> list_all is_string xs | _ \<Rightarrow> False)"


text \<open>Concrete replies, for evaluating the hooks.\<close>

definition reply_example :: jsval where
  "reply_example = JObj [(''posts'', JArr []), (''synthesized_answer'', JNull),
     (''persona'', JStr ''helpful_sunbae''), (''query_time'', JNum 12),
     (''discovered_galls'', JArr [JStr ''programming'']), (''posts_crawled'', JNum 3)]"

definition troll_reply :: jsval where
  \<comment> \<open>a reply whose persona is none of the four\<close>
  "troll_reply = JObj [(''posts'', JArr []), (''synthesized_answer'', JStr ''lol''),
     (''persona'', JStr ''troll''), (''query_time'', JNum 12),
     (''discovered_galls'', JArr []), (''posts_crawled'', JNum 0)]"

definition rag_result_example :: jsval where
  \<comment> \<open>a value of the type \<open>RAGResult\<close>, which the preload script documents for the bridge\<close>
  "rag_result_example = JObj [(''posts'', JArr []), (''synthesizedAnswer'', JNull),
     (''persona'', JStr ''helpful_sunbae''), (''queryTime'', JNum 12)]"

definition response_example :: "jsval \<Rightarrow> response" where
  "response_example j = \<lparr>http_status = 200, body_text = Inr ''{...}'', body_json = Inr j\<rparr>"

section \<open>shared/components/DCComment: the personas\<close>

text \<open>
  \<open>Persona\<close> is a union of four string literals; \<open>persona_id\<close> gives the string each
  member is at run time, and \<open>PERSONA_META\<close> is the table of label and colour class.
\<close>

datatype Persona = aggressive_helper | fact_checker | meme_lord | helpful_sunbae

definition persona_id :: "Persona \<Rightarrow> string" where
  "persona_id p =
     (case p of
        aggressive_helper \<Rightarrow> ''aggressive_helper''
      | fact_checker \<Rightarrow> ''fact_checker''
      | meme_lord \<Rightarrow> ''meme_lord''
      | helpful_sunbae \<Rightarrow> ''helpful_sunbae'')"

definition PERSONA_META :: "Persona \<Rightarrow> string \<times> string" where
  "PERSONA_META p =
     (case p of
        aggressive_helper \<Rightarrow>
          ([CHR 0xEB, CHR 0xB9, CHR 0xA1, CHR 0xEC, CHR 0xB9, CHR 0x9C, CHR 0xEB, CHR 0x8F, CHR 0x84,
            CHR 0xEC, CHR 0x9A, CHR 0xB0, CHR 0xEB, CHR 0xAF, CHR 0xB8], ''bg-red-600 text-white'')
      | fact_checker \<Rightarrow>
          ([CHR 0xED, CHR 0x8C, CHR 0xA9, CHR 0xED, CHR 0x8A, CHR 0xB8, CHR 0xEC, CHR 0xB2, CHR 0xB4,
            CHR 0xEC, CHR 0xBB, CHR 0xA4], ''bg-blue-600 text-white'')
      | meme_lord \<Rightarrow>
          ([CHR 0xEB, CHR 0xB0, CHR 0x88, CHR 0xEC, CHR 0x99, CHR 0x95], ''bg-purple-600 text-white'')
      | helpful_sunbae \<Rightarrow>
          ([CHR 0xEA, CHR 0xB0, CHR 0x9C, CHR 0xEB, CHR 0x85, CHR 0x90, CHR 0xEA, CHR 0xB8, CHR 0x80,
            CHR 0xEB, CHR 0xB4, CHR 0x87], ''bg-green-600 text-white''))"

section \<open>The backend, as the specification describes it\<close>

text \<open>
  Modelled from the spec: the persona synthesizer (section 4.6) belongs to the Python
  backend, which is not among the sources. \<open>synthesize(query, hits, persona?)\<close> returns an
  answer, or null, and a persona. Without a requested persona the default
  \<open>helpful_sunbae\<close> is used. With no hits the answer is null and the generative
  capability is not invoked; \<open>generate\<close> stands for that capability and returns \<open>None\<close>
  when it fails or times out, which leaves the answer null.
\<close>

definition synthesize ::
  "(Persona \<Rightarrow> string \<Rightarrow> 'hit list \<Rightarrow> string option) \<Rightarrow>
     string \<Rightarrow> 'hit list \<Rightarrow> Persona option \<Rightarrow> string option \<times> Persona" where
  \<comment> \<open>Modelled from the spec: section 4.6\<close>
  "synthesize generate query hits requested =
     (let persona = (case requested of None \<Rightarrow> helpful_sunbae | Some p \<Rightarrow> p)
      in (if hits = [] then None else generate persona query hits, persona))"

text \<open>
  Modelled from the spec: the reply of \<open>POST /smart-search\<close> (section 6) as the
  orchestrator assembles it (section 4.7) from the retrieved posts, the synthesizer's
  answer and persona, the duration, the discovered galleries and the count of crawled posts.
\<close>

definition smart_search_reply ::
  "jsval list \<Rightarrow> string option \<times> Persona \<Rightarrow> real \<Rightarrow> string list \<Rightarrow> nat \<Rightarrow> jsval" where
  \<comment> \<open>Modelled from the spec: the response fields of section 6\<close>
  "smart_search_reply posts synthesized query_time galls crawled =
     JObj [(''posts'', JArr posts),
           (''synthesized_answer'', (case fst synthesized of None \<Rightarrow> JNull | Some a \<Rightarrow> JStr a)),
           (''persona'', JStr (persona_id (snd synthesized))),
           (''query_time'', JNum query_time),
           (''discovered_galls'', JArr (map JStr galls)),
           (''posts_crawled'', JNum (real crawled))]"

text \<open>
  Modelled from the spec: the crawl orchestrator and its job tracker (sections 3, 4.2, 5
  and 7) belong to the Python backend, which is not among the sources. There is a job per
  gallery; \<open>idle\<close> is what is reported when no job exists. A crawl request creates or
  overwrites the job of its gallery and sets it to \<open>running\<close>, unless that job is
  \<open>running\<close>: then the request is rejected with \<open>CrawlAlreadyRunning\<close>, at once, and
  nothing is queued. A crawl that completes, even partially, sets \<open>done\<close>; a total
  failure (\<open>CrawlUnreachable\<close>) sets \<open>error\<close>. \<open>in_progress\<close> lists the crawl
  operations that have been accepted and have not finished.
\<close>

datatype crawl_failure = CrawlAlreadyRunning | CrawlUnreachable

datatype job_state = JobIdle | JobRunning | JobDone | JobError

datatype crawl_result = Crawled nat string | Unreachable

record tracker =
  job :: "string \<Rightarrow> job_state"
  in_progress :: "string list"

definition tracker_init :: tracker where
  "tracker_init = \<lparr>job = (\<lambda>g. JobIdle), in_progress = []\<rparr>"

definition crawl_begin :: "string \<Rightarrow> tracker \<Rightarrow> crawl_failure + tracker" where
  \<comment> \<open>Modelled from the spec: a crawl request arrives (sections 4.2 and 5)\<close>
  "crawl_begin g t =
     (if job t g = JobRunning then Inl CrawlAlreadyRunning
      else Inr (t\<lparr>job := (job t)(g := JobRunning), in_progress := g # in_progress t\<rparr>))"

definition crawl_end :: "string \<Rightarrow> crawl_result \<Rightarrow> tracker \<Rightarrow> tracker" where
  \<comment> \<open>Modelled from the spec: a crawl in progress finishes (section 4.2)\<close>
  "crawl_end g res t =
     (if g \<in> set (in_progress t)
      then t\<lparr>job := (job t)(g := (case res of Crawled n m \<Rightarrow> JobDone | Unreachable \<Rightarrow> JobError)),
             in_progress := remove1 g (in_progress t)\<rparr>
      else t)"

datatype crawl_event = Request string | Finished string crawl_result

fun tracker_step :: "tracker \<Rightarrow> crawl_event \<Rightarrow> tracker" where
  "tracker_step t (Request g) = (case crawl_begin g t of Inl e \<Rightarrow> t | Inr t' \<Rightarrow> t')"
| "tracker_step t (Finished g res) = crawl_end g res t"

definition tracker_run :: "crawl_event list \<Rightarrow> tracker" where
  "tracker_run evs = foldl tracker_step tracker_init evs"

definition exclusive :: "tracker \<Rightarrow> bool" where
  \<comment> \<open>section 3: at most one running crawl per gallery, and the job says running exactly
      for the galleries with a crawl in progress\<close>
  "exclusive t \<longleftrightarrow> distinct (in_progress t) \<and> set (in_progress t) = {g. job t g = JobRunning}"

text \<open>
  Modelled from the spec: the crawler's request-delay gate (sections 4.2, 5 and 6) belongs
  to the Python backend, which is not among the sources. It is a serializing rate limiter
  shared by all crawl operations: it keeps, for each origin, the time at which it released
  the last request to that origin, and releases the next one no earlier than the minimum
  delay after it (1 second by default; times are in milliseconds). The requests of all
  crawl operations pass the gate in one sequence; \<open>ready\<close> is the time at which a crawl
  operation hands its request to the gate, and \<open>gallery\<close> names the operation.
\<close>

record outbound =
  origin :: string
  gallery :: string
  ready :: nat

type_synonym gate = "string \<Rightarrow> nat option"

definition default_delay :: nat where
  \<comment> \<open>Modelled from the spec: the default politeness interval, 1 second\<close>
  "default_delay = 1000"

definition release :: "nat \<Rightarrow> gate \<Rightarrow> outbound \<Rightarrow> nat" where
  \<comment> \<open>Modelled from the spec: the time at which the gate lets a request out\<close>
  "release delay g r =
     (case g (origin r) of None \<Rightarrow> ready r | Some prev \<Rightarrow> max (ready r) (prev + delay))"

fun gate_run :: "nat \<Rightarrow> gate \<Rightarrow> outbound list \<Rightarrow> (outbound \<times> nat) list" where
  \<comment> \<open>Modelled from the spec: the requests pass the gate one after the other\<close>
  "gate_run delay g [] = []"
| "gate_run delay g (r # rs) =
     (r, release delay g r) # gate_run delay (g(origin r \<mapsto> release delay g r)) rs"

definition crawl_schedule :: "outbound list \<Rightarrow> (outbound \<times> nat) list" where
  "crawl_schedule rs = gate_run default_delay Map.empty rs"

text \<open>A development host, for evaluating the module on concrete traces.\<close>

definition host_example :: host where
  "host_example = \<lparr>isPackaged = False, resourcesPath = ''/res'', dirname = ''/app/dist/bridge'',
     platform = ''linux'', path_join = (\<lambda>ps. ''/app/backend/main.py'')\<rparr>"

section \<open>Properties\<close>

subsection \<open>Trimming\<close>

lemmas trim_eval = js_trim_def strip.simps starts_with_def white_space_def

lemma js_trim_unicode_blank:
  "js_trim [CHR 0xC2, CHR 0xA0] = [] \<and> js_trim [CHR 0xE3, CHR 0x80, CHR 0x80] = [] \<and>
   js_trim ([CHR 0xEF, CHR 0xBB, CHR 0xBF] @ ''a b'' @ [CHR 0xE2, CHR 0x80, CHR 0xA8, CHR 0x0A]) = ''a b''"
  by (simp add: trim_eval)

lemma trim_examples:
  "js_trim ''elden ring'' = ''elden ring''"
  "js_trim ''programming'' = ''programming''"
  "js_trim ''dc'' = ''dc''"
  "js_trim '' '' = []"
  "js_trim ''  '' = []"
  "js_trim [CHR 0xC2, CHR 0xA0] = []"
  "js_trim [CHR 0xE3, CHR 0x80, CHR 0x80] = []"
  by (simp_all add: trim_eval)

text \<open>
  A query or a gallery id that consists of white space only, Unicode white space
  included, makes the hooks return at once: no call, no state.
\<close>

lemma blank_inputs_return_at_once:
  "js_trim query = [] \<Longrightarrow> search apiBase env query topK = ([], [])"
  "js_trim gallId = [] \<Longrightarrow> startCrawl apiBase ToString env gallId maxPages = ([], [])"
  "search apiBase env [CHR 0xC2, CHR 0xA0] topK = ([], [])"
  "startCrawl apiBase ToString env [CHR 0xE3, CHR 0x80, CHR 0x80] maxPages = ([], [])"
  by (simp_all add: search_def startCrawl_def Let_def trim_examples)

subsection \<open>formatDCDate\<close>

lemma div_less_iff_int: "0 < b \<Longrightarrow> (d::int) div b < k \<longleftrightarrow> d < k * b"
proof -
  assume b: "0 < b"
  define q where "q = d div b"
  define r where "r = d mod b"
  have e: "d = b * q + r" by (simp add: q_def r_def)
  have r: "0 \<le> r" "r < b" using b by (simp_all add: r_def)
  have "q < k \<longleftrightarrow> d < k * b"
  proof
    assume "q < k"
    then have "q + 1 \<le> k" by simp
    then have "b * (q + 1) \<le> b * k" using b by (simp only: mult_le_cancel_left_pos)
    then have "b * q + b \<le> k * b" by (simp add: algebra_simps)
    then show "d < k * b" using e r by linarith
  next
    assume h: "d < k * b"
    show "q < k"
    proof (rule ccontr)
      assume "\<not> q < k"
      then have "k \<le> q" by simp
      then have "b * k \<le> b * q" using b by (simp only: mult_le_cancel_left_pos)
      then have "k * b \<le> b * q" by (simp add: algebra_simps)
      then show False using h e r by linarith
    qed
  qed
  then show ?thesis by (simp add: q_def)
qed

text \<open>
  C10. For a timestamp whose difference from the current time is below one minute, a
  timestamp in the future included, \<open>formatDCDate\<close> returns the just-now literal. The
  minute form is returned exactly for differences from one minute up to one hour (with a
  count from 1 to 59), the hour form exactly for differences from one hour up to 24 hours
  (with a count from 1 to 23), and a timestamp 24 hours old or older is handed to the
  locale formatter, as is an invalid date.
\<close>

theorem formatDCDate_branches:
  "(Date_parse dateStr = Some date \<longrightarrow>
     (now - date < 60000 \<longrightarrow>
        formatDCDate Date_parse toLocaleDateString now dateStr = just_now) \<and>
     (now - date < 0 \<longrightarrow>
        formatDCDate Date_parse toLocaleDateString now dateStr = just_now) \<and>
     (60000 \<le> now - date \<and> now - date < 3600000 \<longrightarrow>
        formatDCDate Date_parse toLocaleDateString now dateStr =
          show_int ((now - date) div 60000) @ minutes_ago \<and>
        1 \<le> (now - date) div 60000 \<and> (now - date) div 60000 < 60) \<and>
     (3600000 \<le> now - date \<and> now - date < 86400000 \<longrightarrow>
        formatDCDate Date_parse toLocaleDateString now dateStr =
          show_int ((now - date) div 3600000) @ hours_ago \<and>
        1 \<le> (now - date) div 3600000 \<and> (now - date) div 3600000 < 24) \<and>
     (86400000 \<le> now - date \<longrightarrow>
        formatDCDate Date_parse toLocaleDateString now dateStr =
          toLocaleDateString (Some date))) \<and>
   (Date_parse dateStr = None \<longrightarrow>
      formatDCDate Date_parse toLocaleDateString now dateStr = toLocaleDateString None)"
proof -
  have m: "1 \<le> d div 60000 \<longleftrightarrow> 60000 \<le> d" for d :: int
    using div_less_iff_int [of 60000 d 1] by auto
  have h: "1 \<le> d div 3600000 \<longleftrightarrow> 3600000 \<le> d" for d :: int
    using div_less_iff_int [of 3600000 d 1] by auto
  show ?thesis
    by (simp add: formatDCDate_def Let_def div_less_iff_int m h)
qed

theorem formatDCDate_branches_witness:
  "formatDCDate (\<lambda>s. Some 1000000) (\<lambda>d. ''01. 01. 00:00'') 1030000 ''t'' = just_now \<and>
   formatDCDate (\<lambda>s. Some 1000000) (\<lambda>d. ''01. 01. 00:00'') 994000 ''t'' = just_now \<and>
   formatDCDate (\<lambda>s. Some 1000000) (\<lambda>d. ''01. 01. 00:00'') 1300000 ''t'' =
     ''5'' @ minutes_ago \<and>
   formatDCDate (\<lambda>s. Some 1000000) (\<lambda>d. ''01. 01. 00:00'') 8200000 ''t'' =
     ''2'' @ hours_ago \<and>
   formatDCDate (\<lambda>s. Some 1000000) (\<lambda>d. ''01. 01. 00:00'') 87400000 ''t'' =
     ''01. 01. 00:00'' \<and>
   formatDCDate (\<lambda>s. None) (\<lambda>d. ''Invalid Date'') 87400000 ''yesterday'' = ''Invalid Date''"
  using formatDCDate_branches [of "\<lambda>s. Some 1000000" "''t''" 1000000 1030000
          "\<lambda>d. ''01. 01. 00:00''"]
        formatDCDate_branches [of "\<lambda>s. Some 1000000" "''t''" 1000000 994000
          "\<lambda>d. ''01. 01. 00:00''"]
        formatDCDate_branches [of "\<lambda>s. Some 1000000" "''t''" 1000000 1300000
          "\<lambda>d. ''01. 01. 00:00''"]
        formatDCDate_branches [of "\<lambda>s. Some 1000000" "''t''" 1000000 8200000
          "\<lambda>d. ''01. 01. 00:00''"]
        formatDCDate_branches [of "\<lambda>s. Some 1000000" "''t''" 1000000 87400000
          "\<lambda>d. ''01. 01. 00:00''"]
        formatDCDate_branches [of "\<lambda>s. None" "''yesterday''" 0 87400000
          "\<lambda>d. ''Invalid Date''"]
  by (simp add: show_int_def show_nat.simps digit_char_def)

subsection \<open>The hooks\<close>

lemma js_get_nullish: "nullish v \<Longrightarrow> js_get v k = JUndefined"
  by (auto simp add: nullish_def js_get_def)

lemma search_web_ok:
  assumes "js_trim query \<noteq> []" "ok resp" "body_json resp = Inr json" "\<not> nullish json"
  shows "after s0 (search apiBase (Web (Inr resp)) query topK) =
     \<lparr>data = JObj
        [(''posts'', js_get json ''posts''),
         (''synthesizedAnswer'', js_get json ''synthesized_answer''),
         (''persona'', js_get json ''persona''),
         (''queryTime'', js_get json ''query_time''),
         (''discoveredGalls'', coalesce (js_get json ''discovered_galls'') (JArr [])),
         (''postsCrawled'', coalesce (js_get json ''posts_crawled'') (JNum 0))],
      isLoading = False, error = None\<rparr>"
  using assms
  by (simp add: after_def search_def search_web_def to_SmartSearchResult_def Let_def)

lemma search_bridge_ok:
  "js_trim query \<noteq> [] \<Longrightarrow>
     after s0 (search apiBase (Bridge (Inr result)) query topK) =
       \<lparr>data = result, isLoading = False, error = None\<rparr>"
  by (simp add: after_def search_def search_bridge_def Let_def)

lemma startCrawl_web_ok:
  assumes "js_trim gallId \<noteq> []" "ok resp" "body_json resp = Inr json" "\<not> nullish json"
  shows "after c0 (startCrawl apiBase ToString (Web (Inr resp)) gallId maxPages) =
     \<lparr>status = Done, message = js_get json ''message'',
      postsIndexed = js_get json ''posts_indexed'', crawlError = None\<rparr>"
  using assms
  by (simp add: after_def startCrawl_def crawl_web_def Let_def)

lemma search_fetches:
  "fetches (search apiBase env query topK) =
     (if js_trim query \<noteq> [] \<and> (\<exists>r. env = Web r)
      then [\<lparr>http_method = ''POST'', url = apiBase @ ''/smart-search'',
              headers = [(''Content-Type'', ''application/json'')],
              body = JObj [(''query'', JStr query),
                           (''top_k'', JNum (case topK of None \<Rightarrow> 5 | Some k \<Rightarrow> k)),
                           (''google_results'', JNum 10), (''gallery_pages'', JNum 2)]\<rparr>]
      else [])"
  by (cases env) (simp_all add: fetches_def search_def smart_search_request_def Let_def)

lemma startCrawl_fetches:
  "fetches (startCrawl apiBase ToString env gallId maxPages) =
     (if js_trim gallId \<noteq> [] \<and> (\<exists>r. env = Web r)
      then [\<lparr>http_method = ''POST'', url = apiBase @ ''/crawl'',
              headers = [(''Content-Type'', ''application/json'')],
              body = JObj [(''gall_id'', JStr gallId),
                           (''max_pages'', JNum (case maxPages of None \<Rightarrow> 5 | Some k \<Rightarrow> k))]\<rparr>]
      else [])"
  by (cases env) (simp_all add: fetches_def startCrawl_def crawl_request_def Let_def)

text \<open>
  C1. The web transport sends and reads exactly the field names of the boundary contract.
  A call of \<open>search\<close> issues one HTTP request when the query is not blank and no bridge is
  present, and none otherwise; the request is a POST to \<open>/smart-search\<close> under the API
  base whose JSON body has the fields \<open>query\<close>, \<open>top_k\<close>, \<open>google_results\<close>,
  \<open>gallery_pages\<close> and no other. From an ok reply the result record is filled from
  \<open>posts\<close>, \<open>synthesized_answer\<close>, \<open>persona\<close>, \<open>query_time\<close>,
  \<open>discovered_galls\<close> and \<open>posts_crawled\<close>. In the same way \<open>startCrawl\<close> posts
  \<open>gall_id\<close> and \<open>max_pages\<close> to \<open>/crawl\<close> and reads \<open>posts_indexed\<close> and
  \<open>message\<close>.
\<close>

theorem web_transport_field_names:
  "fetches (search apiBase env query topK) =
     (if js_trim query \<noteq> [] \<and> (\<exists>r. env = Web r)
      then [\<lparr>http_method = ''POST'', url = apiBase @ ''/smart-search'',
              headers = [(''Content-Type'', ''application/json'')],
              body = JObj [(''query'', JStr query),
                           (''top_k'', JNum (case topK of None \<Rightarrow> 5 | Some k \<Rightarrow> k)),
                           (''google_results'', JNum 10), (''gallery_pages'', JNum 2)]\<rparr>]
      else []) \<and>
   (js_trim query \<noteq> [] \<and> ok resp \<and> body_json resp = Inr json \<and> \<not> nullish json \<longrightarrow>
      after s0 (search apiBase (Web (Inr resp)) query topK) =
        \<lparr>data = JObj
           [(''posts'', js_get json ''posts''),
            (''synthesizedAnswer'', js_get json ''synthesized_answer''),
            (''persona'', js_get json ''persona''),
            (''queryTime'', js_get json ''query_time''),
            (''discoveredGalls'', coalesce (js_get json ''discovered_galls'') (JArr [])),
            (''postsCrawled'', coalesce (js_get json ''posts_crawled'') (JNum 0))],
         isLoading = False, error = None\<rparr>) \<and>
   fetches (startCrawl apiBase ToString env gallId maxPages) =
     (if js_trim gallId \<noteq> [] \<and> (\<exists>r. env = Web r)
      then [\<lparr>http_method = ''POST'', url = apiBase @ ''/crawl'',
              headers = [(''Content-Type'', ''application/json'')],
              body = JObj [(''gall_id'', JStr gallId),
                           (''max_pages'', JNum (case maxPages of None \<Rightarrow> 5 | Some k \<Rightarrow> k))]\<rparr>]
      else []) \<and>
   (js_trim gallId \<noteq> [] \<and> ok resp' \<and> body_json resp' = Inr json' \<and> \<not> nullish json' \<longrightarrow>
      after c0 (startCrawl apiBase ToString (Web (Inr resp')) gallId maxPages) =
        \<lparr>status = Done, message = js_get json' ''message'',
         postsIndexed = js_get json' ''posts_indexed'', crawlError = None\<rparr>)"
proof -
  have a: "js_trim query \<noteq> [] \<and> ok resp \<and> body_json resp = Inr json \<and> \<not> nullish json \<longrightarrow>
      after s0 (search apiBase (Web (Inr resp)) query topK) =
        \<lparr>data = JObj
           [(''posts'', js_get json ''posts''),
            (''synthesizedAnswer'', js_get json ''synthesized_answer''),
            (''persona'', js_get json ''persona''),
            (''queryTime'', js_get json ''query_time''),
            (''discoveredGalls'', coalesce (js_get json ''discovered_galls'') (JArr [])),
            (''postsCrawled'', coalesce (js_get json ''posts_crawled'') (JNum 0))],
         isLoading = False, error = None\<rparr>"
    using search_web_ok by blast
  have b: "js_trim gallId \<noteq> [] \<and> ok resp' \<and> body_json resp' = Inr json' \<and> \<not> nullish json' \<longrightarrow>
      after c0 (startCrawl apiBase ToString (Web (Inr resp')) gallId maxPages) =
        \<lparr>status = Done, message = js_get json' ''message'',
         postsIndexed = js_get json' ''posts_indexed'', crawlError = None\<rparr>"
    using startCrawl_web_ok by blast
  show ?thesis
    using a b search_fetches [of apiBase env query topK]
      startCrawl_fetches [of apiBase ToString env gallId maxPages]
    by blast
qed

theorem web_transport_field_names_witness:
  "fetches (search ''/api'' (Web (Inr (response_example reply_example))) ''elden ring'' None) =
     [\<lparr>http_method = ''POST'', url = ''/api/smart-search'',
       headers = [(''Content-Type'', ''application/json'')],
       body = JObj [(''query'', JStr ''elden ring''), (''top_k'', JNum 5),
                    (''google_results'', JNum 10), (''gallery_pages'', JNum 2)]\<rparr>] \<and>
   data (after search_init
      (search ''/api'' (Web (Inr (response_example reply_example))) ''elden ring'' None)) =
     JObj [(''posts'', JArr []), (''synthesizedAnswer'', JNull),
           (''persona'', JStr ''helpful_sunbae''), (''queryTime'', JNum 12),
           (''discoveredGalls'', JArr [JStr ''programming'']), (''postsCrawled'', JNum 3)] \<and>
   fetches (startCrawl ''/api'' (\<lambda>v. ''3'')
      (Web (Inr (response_example
         (JObj [(''posts_indexed'', JNum 3), (''message'', JStr ''indexed 3 posts'')]))))
      ''programming'' (Some 2)) =
     [\<lparr>http_method = ''POST'', url = ''/api/crawl'',
       headers = [(''Content-Type'', ''application/json'')],
       body = JObj [(''gall_id'', JStr ''programming''), (''max_pages'', JNum 2)]\<rparr>] \<and>
   after crawl_init (startCrawl ''/api'' (\<lambda>v. ''3'')
      (Web (Inr (response_example
         (JObj [(''posts_indexed'', JNum 3), (''message'', JStr ''indexed 3 posts'')]))))
      ''programming'' (Some 2)) =
     \<lparr>status = Done, message = JStr ''indexed 3 posts'', postsIndexed = JNum 3,
      crawlError = None\<rparr>"
  using web_transport_field_names [of "''/api''" "Web (Inr (response_example reply_example))"
      "''elden ring''" None "response_example reply_example" reply_example search_init
      "\<lambda>v. ''3''" "''programming''" None
      "response_example (JObj [(''posts_indexed'', JNum 3), (''message'', JStr ''indexed 3 posts'')])"
      "JObj [(''posts_indexed'', JNum 3), (''message'', JStr ''indexed 3 posts'')]" crawl_init]
    web_transport_field_names [of "''/api''"
      "Web (Inr (response_example
         (JObj [(''posts_indexed'', JNum 3), (''message'', JStr ''indexed 3 posts'')])))"
      "''elden ring''" None "response_example reply_example" reply_example search_init
      "\<lambda>v. ''3''" "''programming''" "Some 2"
      "response_example (JObj [(''posts_indexed'', JNum 3), (''message'', JStr ''indexed 3 posts'')])"
      "JObj [(''posts_indexed'', JNum 3), (''message'', JStr ''indexed 3 posts'')]" crawl_init]
  by (simp add: response_example_def reply_example_def ok_def trim_examples
      js_get_def nullish_def coalesce_def)







text \<open>
  C5, as the hook has it. On the web transport the two counts of a successful result are
  never null or undefined: \<open>discoveredGalls\<close> is the empty list and \<open>postsCrawled\<close> is 0
  when the reply lacks them or has null. The other four fields are copied from the reply
  unchecked, so the result has the typed shape whenever \<open>posts\<close> is an array,
  \<open>persona\<close> a string, \<open>query_time\<close> a number and \<open>synthesized_answer\<close> a string or
  null in the reply. A result of the bridge is stored as it was received.
\<close>

theorem web_result_shape:
  "(js_trim query \<noteq> [] \<and> ok resp \<and> body_json resp = Inr json \<and> \<not> nullish json \<longrightarrow>
     error (after s0 (search apiBase (Web (Inr resp)) query topK)) = None \<and>
     \<not> nullish (js_get (data (after s0 (search apiBase (Web (Inr resp)) query topK)))
         ''discoveredGalls'') \<and>
     \<not> nullish (js_get (data (after s0 (search apiBase (Web (Inr resp)) query topK)))
         ''postsCrawled'') \<and>
     (nullish (js_get json ''discovered_galls'') \<longrightarrow>
        js_get (data (after s0 (search apiBase (Web (Inr resp)) query topK)))
          ''discoveredGalls'' = JArr []) \<and>
     (nullish (js_get json ''posts_crawled'') \<longrightarrow>
        js_get (data (after s0 (search apiBase (Web (Inr resp)) query topK)))
          ''postsCrawled'' = JNum 0) \<and>
     (is_array (js_get json ''posts'') \<and>
      (is_string (js_get json ''synthesized_answer'') \<or> js_get json ''synthesized_answer'' = JNull) \<and>
      is_string (js_get json ''persona'') \<and> is_number (js_get json ''query_time'') \<longrightarrow>
        typed_shape (data (after s0 (search apiBase (Web (Inr resp)) query topK))))) \<and>
   (js_trim query \<noteq> [] \<longrightarrow>
      data (after s0 (search apiBase (Bridge (Inr result)) query topK)) = result)"
  by (auto simp add: search_web_ok search_bridge_ok js_get_def typed_shape_def nullish_def
      coalesce_def)

theorem web_result_shape_witness:
  "typed_shape (data (after search_init
     (search ''/api'' (Web (Inr (response_example reply_example))) ''dc'' None))) \<and>
   js_get (data (after search_init
     (search ''/api'' (Web (Inr (response_example (JObj [(''posts'', JArr [])])))) ''dc'' None)))
     ''discoveredGalls'' = JArr [] \<and>
   js_get (data (after search_init
     (search ''/api'' (Web (Inr (response_example (JObj [(''posts'', JArr [])])))) ''dc'' None)))
     ''postsCrawled'' = JNum 0"
  using web_result_shape [of "''dc''" "response_example reply_example" reply_example
          search_init "''/api''" None rag_result_example]
        web_result_shape [of "''dc''" "response_example (JObj [(''posts'', JArr [])])"
          "JObj [(''posts'', JArr [])]" search_init "''/api''" None rag_result_example]
  by (simp add: response_example_def reply_example_def ok_def trim_examples
      js_get_def nullish_def is_array_def is_string_def is_number_def)

text \<open>
  C5 as stated fails on two inputs. A result of the bridge is stored as received: with a
  value of the documented type \<open>RAGResult\<close> the search succeeds and \<open>discoveredGalls\<close>
  is undefined. On the web transport a reply without \<open>posts\<close> succeeds with \<open>posts\<close>
  undefined.
\<close>

theorem search_result_shape_counterexample:
  "error (after search_init (search ''/api'' (Bridge (Inr rag_result_example)) ''dc'' None)) = None \<and>
   data (after search_init (search ''/api'' (Bridge (Inr rag_result_example)) ''dc'' None)) \<noteq> JNull \<and>
   js_get (data (after search_init (search ''/api'' (Bridge (Inr rag_result_example)) ''dc'' None)))
     ''discoveredGalls'' = JUndefined \<and>
   \<not> typed_shape
     (data (after search_init (search ''/api'' (Bridge (Inr rag_result_example)) ''dc'' None))) \<and>
   error (after search_init
     (search ''/api'' (Web (Inr (response_example (JObj [])))) ''dc'' None)) = None \<and>
   js_get (data (after search_init
     (search ''/api'' (Web (Inr (response_example (JObj [])))) ''dc'' None))) ''posts'' = JUndefined \<and>
   \<not> typed_shape (data (after search_init
     (search ''/api'' (Web (Inr (response_example (JObj [])))) ''dc'' None)))"
  by (simp add: after_def search_def search_bridge_def search_web_def to_SmartSearchResult_def
      rag_result_example_def response_example_def typed_shape_def js_get_def nullish_def
      is_array_def ok_def trim_examples coalesce_def Let_def)

lemma renderable_strings: "list_all is_string xs \<Longrightarrow> list_all renderable xs"
  by (induction xs) (auto simp add: is_string_def split: jsval.splits)

lemma galls_box_typed:
  assumes "\<not> nullish d"
    and "nullish (js_get d ''discoveredGalls'') \<or> string_list (js_get d ''discoveredGalls'')"
    and "renderable (js_get d ''postsCrawled'')" and "renderable (js_get d ''queryTime'')"
  shows "galls_box coerced d \<noteq> None"
proof (cases "js_get d ''discoveredGalls''")
  case (JArr gs)
  then have "list_all is_string gs"
    using assms(2) by (simp add: nullish_def string_list_def)
  then have "list_all renderable gs"
    by (rule renderable_strings)
  then show ?thesis
    using JArr assms(3,4) by (simp add: galls_box_def)
next
  case JUndefined
  then show ?thesis by (simp add: galls_box_def truthy_def)
next
  case JNull
  then show ?thesis by (simp add: galls_box_def truthy_def)
next
  case (JBool b)
  then show ?thesis using assms(2) by (simp add: nullish_def string_list_def)
next
  case (JNum x)
  then show ?thesis using assms(2) by (simp add: nullish_def string_list_def)
next
  case (JStr cs)
  then show ?thesis using assms(2) by (simp add: nullish_def string_list_def)
next
  case (JObj fs)
  then show ?thesis using assms(2) by (simp add: nullish_def string_list_def)
qed

lemma empty_result_page:
  assumes p: "js_get d ''posts'' = JArr []" and a: "js_get d ''synthesizedAnswer'' = JNull"
    and g: "nullish (js_get d ''discoveredGalls'') \<or> string_list (js_get d ''discoveredGalls'')"
    and c: "renderable (js_get d ''postsCrawled'')" and q: "renderable (js_get d ''queryTime'')"
    and m: "showCrawlPanel \<longrightarrow> renderable (message cs)"
  shows "map_option pg_board
           (App coerced renderPost shown showCrawlPanel
              \<lparr>data = d, isLoading = False, error = None\<rparr> cs) = Some (EmptyState shown) \<and>
         map_option pg_error
           (App coerced renderPost shown showCrawlPanel
              \<lparr>data = d, isLoading = False, error = None\<rparr> cs) = Some None \<and>
         map_option pg_answer
           (App coerced renderPost shown showCrawlPanel
              \<lparr>data = d, isLoading = False, error = None\<rparr> cs) = Some None"
proof -
  have nn: "\<not> nullish d"
    using p js_get_nullish [of d "''posts''"] by auto
  obtain badges where b: "galls_box coerced d = Some badges"
    using galls_box_typed [OF nn g c q, of coerced] by auto
  have "\<exists>panel.
      (if showCrawlPanel then map_option Some (crawl_box cs) else Some None) = Some panel"
    using m by (cases showCrawlPanel) (simp_all add: crawl_box_def)
  then obtain panel where pn:
    "(if showCrawlPanel then map_option Some (crawl_box cs) else Some None) = Some panel"
    by blast
  have ans: "answer_box d = Some None"
    using nn a by (simp add: answer_box_def truthy_def)
  have brd: "DCBoard renderPost (board_posts \<lparr>data = d, isLoading = False, error = None\<rparr>)
      False shown = Some (EmptyState shown)"
    using nn p by (simp add: DCBoard_def board_posts_def coalesce_def nullish_def js_get_def)
  show ?thesis
    using b pn ans brd by (simp add: App_def error_box_def)
qed

text \<open>
  C6. When the reply to a search is the normal one for a query that matched nothing
  (\<open>posts\<close> empty, \<open>synthesized_answer\<close> null, the other fields as the contract types
  them), the hook ends with \<open>error\<close> null and a result whose \<open>posts\<close> is empty and
  whose \<open>synthesizedAnswer\<close> is null, and the page is drawn with the empty state in the
  board, no error box and no summary box. The same holds for such a result of the bridge.
\<close>

theorem no_match_renders_empty_state:
  "(js_trim query \<noteq> [] \<and> ok resp \<and> body_json resp = Inr json \<and>
    js_get json ''posts'' = JArr [] \<and> js_get json ''synthesized_answer'' = JNull \<and>
    (nullish (js_get json ''discovered_galls'') \<or> string_list (js_get json ''discovered_galls'')) \<and>
    (nullish (js_get json ''posts_crawled'') \<or> is_number (js_get json ''posts_crawled'')) \<and>
    is_number (js_get json ''query_time'') \<and>
    (showCrawlPanel \<longrightarrow> renderable (message cs)) \<longrightarrow>
      error (after s0 (search apiBase (Web (Inr resp)) query topK)) = None \<and>
      isLoading (after s0 (search apiBase (Web (Inr resp)) query topK)) = False \<and>
      js_get (data (after s0 (search apiBase (Web (Inr resp)) query topK))) ''posts'' = JArr [] \<and>
      js_get (data (after s0 (search apiBase (Web (Inr resp)) query topK)))
        ''synthesizedAnswer'' = JNull \<and>
      map_option pg_board
        (App coerced renderPost shown showCrawlPanel
           (after s0 (search apiBase (Web (Inr resp)) query topK)) cs) =
        Some (EmptyState shown) \<and>
      map_option pg_error
        (App coerced renderPost shown showCrawlPanel
           (after s0 (search apiBase (Web (Inr resp)) query topK)) cs) = Some None \<and>
      map_option pg_answer
        (App coerced renderPost shown showCrawlPanel
           (after s0 (search apiBase (Web (Inr resp)) query topK)) cs) = Some None) \<and>
   (js_trim query \<noteq> [] \<and>
    js_get result ''posts'' = JArr [] \<and> js_get result ''synthesizedAnswer'' = JNull \<and>
    (nullish (js_get result ''discoveredGalls'') \<or> string_list (js_get result ''discoveredGalls'')) \<and>
    (nullish (js_get result ''postsCrawled'') \<or> is_number (js_get result ''postsCrawled'')) \<and>
    is_number (js_get result ''queryTime'') \<and>
    (showCrawlPanel \<longrightarrow> renderable (message cs)) \<longrightarrow>
      error (after s0 (search apiBase (Bridge (Inr result)) query topK)) = None \<and>
      isLoading (after s0 (search apiBase (Bridge (Inr result)) query topK)) = False \<and>
      data (after s0 (search apiBase (Bridge (Inr result)) query topK)) = result \<and>
      map_option pg_board
        (App coerced renderPost shown showCrawlPanel
           (after s0 (search apiBase (Bridge (Inr result)) query topK)) cs) =
        Some (EmptyState shown) \<and>
      map_option pg_error
        (App coerced renderPost shown showCrawlPanel
           (after s0 (search apiBase (Bridge (Inr result)) query topK)) cs) = Some None \<and>
      map_option pg_answer
        (App coerced renderPost shown showCrawlPanel
           (after s0 (search apiBase (Bridge (Inr result)) query topK)) cs) = Some None)"
proof (intro conjI impI)
  assume h: "js_trim query \<noteq> [] \<and> ok resp \<and> body_json resp = Inr json \<and>
    js_get json ''posts'' = JArr [] \<and> js_get json ''synthesized_answer'' = JNull \<and>
    (nullish (js_get json ''discovered_galls'') \<or> string_list (js_get json ''discovered_galls'')) \<and>
    (nullish (js_get json ''posts_crawled'') \<or> is_number (js_get json ''posts_crawled'')) \<and>
    is_number (js_get json ''query_time'') \<and>
    (showCrawlPanel \<longrightarrow> renderable (message cs))"
  then have nn: "\<not> nullish json"
    using js_get_nullish [of json "''posts''"] by auto
  define d where "d = JObj
        [(''posts'', js_get json ''posts''),
         (''synthesizedAnswer'', js_get json ''synthesized_answer''),
         (''persona'', js_get json ''persona''),
         (''queryTime'', js_get json ''query_time''),
         (''discoveredGalls'', coalesce (js_get json ''discovered_galls'') (JArr [])),
         (''postsCrawled'', coalesce (js_get json ''posts_crawled'') (JNum 0))]"
  have st: "after s0 (search apiBase (Web (Inr resp)) query topK) =
      \<lparr>data = d, isLoading = False, error = None\<rparr>"
    using h nn by (simp add: search_web_ok d_def)
  have p: "js_get d ''posts'' = JArr []" and a: "js_get d ''synthesizedAnswer'' = JNull"
    using h by (simp_all add: d_def js_get_def)
  have g: "nullish (js_get d ''discoveredGalls'') \<or> string_list (js_get d ''discoveredGalls'')"
    using h by (auto simp add: d_def js_get_def coalesce_def string_list_def)
  have c: "renderable (js_get d ''postsCrawled'')"
    using h by (auto simp add: d_def js_get_def coalesce_def is_number_def nullish_def
        split: jsval.splits)
  have q: "renderable (js_get d ''queryTime'')"
    using h by (auto simp add: d_def js_get_def is_number_def split: jsval.splits)
  from h have m: "showCrawlPanel \<longrightarrow> renderable (message cs)" by simp
  note v = empty_result_page [OF p a g c q m, of coerced renderPost shown]
  show "error (after s0 (search apiBase (Web (Inr resp)) query topK)) = None"
    by (simp add: st)
  show "isLoading (after s0 (search apiBase (Web (Inr resp)) query topK)) = False"
    by (simp add: st)
  show "js_get (data (after s0 (search apiBase (Web (Inr resp)) query topK))) ''posts'' = JArr []"
    by (simp add: st p)
  show "js_get (data (after s0 (search apiBase (Web (Inr resp)) query topK)))
        ''synthesizedAnswer'' = JNull"
    by (simp add: st a)
  show "map_option pg_board
        (App coerced renderPost shown showCrawlPanel
           (after s0 (search apiBase (Web (Inr resp)) query topK)) cs) =
        Some (EmptyState shown)"
    using v by (simp only: st)
  show "map_option pg_error
        (App coerced renderPost shown showCrawlPanel
           (after s0 (search apiBase (Web (Inr resp)) query topK)) cs) = Some None"
    using v by (simp only: st)
  show "map_option pg_answer
        (App coerced renderPost shown showCrawlPanel
           (after s0 (search apiBase (Web (Inr resp)) query topK)) cs) = Some None"
    using v by (simp only: st)
next
  assume h: "js_trim query \<noteq> [] \<and>
    js_get result ''posts'' = JArr [] \<and> js_get result ''synthesizedAnswer'' = JNull \<and>
    (nullish (js_get result ''discoveredGalls'') \<or> string_list (js_get result ''discoveredGalls'')) \<and>
    (nullish (js_get result ''postsCrawled'') \<or> is_number (js_get result ''postsCrawled'')) \<and>
    is_number (js_get result ''queryTime'') \<and>
    (showCrawlPanel \<longrightarrow> renderable (message cs))"
  then have st: "after s0 (search apiBase (Bridge (Inr result)) query topK) =
      \<lparr>data = result, isLoading = False, error = None\<rparr>"
    by (simp add: search_bridge_ok)
  from h have p: "js_get result ''posts'' = JArr []"
    and a: "js_get result ''synthesizedAnswer'' = JNull"
    and g: "nullish (js_get result ''discoveredGalls'') \<or>
        string_list (js_get result ''discoveredGalls'')"
    and m: "showCrawlPanel \<longrightarrow> renderable (message cs)"
    by simp_all
  have c: "renderable (js_get result ''postsCrawled'')"
    using h by (auto simp add: is_number_def nullish_def split: jsval.splits)
  have q: "renderable (js_get result ''queryTime'')"
    using h by (auto simp add: is_number_def split: jsval.splits)
  note v = empty_result_page [OF p a g c q m, of coerced renderPost shown]
  show "error (after s0 (search apiBase (Bridge (Inr result)) query topK)) = None"
    by (simp add: st)
  show "isLoading (after s0 (search apiBase (Bridge (Inr result)) query topK)) = False"
    by (simp add: st)
  show "data (after s0 (search apiBase (Bridge (Inr result)) query topK)) = result"
    by (simp add: st)
  show "map_option pg_board
        (App coerced renderPost shown showCrawlPanel
           (after s0 (search apiBase (Bridge (Inr result)) query topK)) cs) =
        Some (EmptyState shown)"
    using v by (simp only: st)
  show "map_option pg_error
        (App coerced renderPost shown showCrawlPanel
           (after s0 (search apiBase (Bridge (Inr result)) query topK)) cs) = Some None"
    using v by (simp only: st)
  show "map_option pg_answer
        (App coerced renderPost shown showCrawlPanel
           (after s0 (search apiBase (Bridge (Inr result)) query topK)) cs) = Some None"
    using v by (simp only: st)
qed

theorem no_match_renders_empty_state_witness:
  "error (after search_init
      (search ''/api'' (Web (Inr (response_example reply_example))) ''elden ring'' None)) = None \<and>
   App (\<lambda>v. False) (\<lambda>post. Some post) ''elden ring'' True
      (after search_init
        (search ''/api'' (Web (Inr (response_example reply_example))) ''elden ring'' None))
      crawl_init =
     Some \<lparr>pg_crawl = Some \<lparr>start_disabled = False, message_shown = None, error_shown = None\<rparr>,
           pg_progress = False,
           pg_galls = Some ([JStr ''programming''], JNum 3, JNum 12),
           pg_answer = None, pg_error = None, pg_board = EmptyState ''elden ring''\<rparr> \<and>
   map_option pg_board
     (App (\<lambda>v. False) (\<lambda>post. Some post) ''elden ring'' False
        (after search_init
          (search ''/api'' (Bridge (Inr rag_result_example)) ''elden ring'' None))
        crawl_init) = Some (EmptyState ''elden ring'')"
  using no_match_renders_empty_state [of "''elden ring''" "response_example reply_example"
      reply_example True crawl_init search_init "''/api''" None "\<lambda>v. False" "\<lambda>post. Some post"
      "''elden ring''" rag_result_example]
    no_match_renders_empty_state [of "''elden ring''" "response_example reply_example"
      reply_example False crawl_init search_init "''/api''" None "\<lambda>v. False" "\<lambda>post. Some post"
      "''elden ring''" rag_result_example]
  by (simp add: response_example_def reply_example_def rag_result_example_def ok_def
      trim_examples js_get_def nullish_def string_list_def is_string_def is_number_def
      crawl_init_def after_def search_def search_web_def search_bridge_def
      to_SmartSearchResult_def coalesce_def
      App_def crawl_box_def galls_box_def answer_box_def error_box_def DCBoard_def
      board_posts_def truthy_def js_gt0_def Let_def)

subsection \<open>Personas\<close>

lemma UNIV_Persona:
  "(UNIV :: Persona set) = {aggressive_helper, fact_checker, meme_lord, helpful_sunbae}"
proof -
  have "p \<in> {aggressive_helper, fact_checker, meme_lord, helpful_sunbae}" for p :: Persona
    by (cases p) simp_all
  then show ?thesis by blast
qed

lemma persona_id_range:
  "persona_id p \<in> {''aggressive_helper'', ''fact_checker'', ''meme_lord'', ''helpful_sunbae''}"
  by (cases p) (simp_all add: persona_id_def)

lemma persona_id_image:
  "persona_id ` UNIV = {''aggressive_helper'', ''fact_checker'', ''meme_lord'', ''helpful_sunbae''}"
  by (simp add: UNIV_Persona persona_id_def)

lemma persona_id_inj: "inj persona_id"
proof (rule injI)
  fix p q assume "persona_id p = persona_id q"
  then show "p = q"
    by (cases p; cases q) (simp_all add: persona_id_def)
qed

lemma PERSONA_META_inj: "inj PERSONA_META"
proof (rule injI)
  fix p q assume "PERSONA_META p = PERSONA_META q"
  then show "p = q"
    by (cases p; cases q) (simp_all add: PERSONA_META_def)
qed

lemma client_persona:
  "js_trim query \<noteq> [] \<Longrightarrow> ok resp \<Longrightarrow>
   body_json resp = Inr (smart_search_reply posts synthesized query_time galls crawled) \<Longrightarrow>
     js_get (data (after s0 (search apiBase (Web (Inr resp)) query topK))) ''persona'' =
       JStr (persona_id (snd synthesized))"
  by (simp add: search_web_ok [where json = "smart_search_reply posts synthesized query_time galls crawled"]
      smart_search_reply_def nullish_def js_get_def)

text \<open>
  C2, as the code has it. \<open>Persona\<close> is a closed variant of exactly four identifiers,
  each with its own row in the style table; no fifth value exists in the type. The
  synthesizer applies \<open>helpful_sunbae\<close> when no persona is requested and keeps a
  requested one, so the persona of every result it produces is one of the four. The search
  hook types the field as a plain string and copies it from the reply unchecked: the
  result's \<open>persona\<close> is whatever the reply holds, and one of the four for a reply built
  from the synthesizer's result.
\<close>

theorem persona_closed:
  "(UNIV :: Persona set) = {aggressive_helper, fact_checker, meme_lord, helpful_sunbae} \<and>
   persona_id ` UNIV = {''aggressive_helper'', ''fact_checker'', ''meme_lord'', ''helpful_sunbae''} \<and>
   inj persona_id \<and> inj PERSONA_META \<and>
   snd (synthesize generate query hits None) = helpful_sunbae \<and>
   snd (synthesize generate query hits (Some p)) = p \<and>
   persona_id (snd (synthesize generate query hits requested)) \<in>
     {''aggressive_helper'', ''fact_checker'', ''meme_lord'', ''helpful_sunbae''} \<and>
   (js_trim q \<noteq> [] \<and> ok resp' \<and> body_json resp' = Inr json \<and> \<not> nullish json \<longrightarrow>
      js_get (data (after s0 (search apiBase (Web (Inr resp')) q topK))) ''persona'' =
        js_get json ''persona'') \<and>
   (js_trim q \<noteq> [] \<and> ok resp \<and>
    body_json resp = Inr (smart_search_reply posts (synthesize generate query hits requested)
      query_time galls crawled) \<longrightarrow>
      js_get (data (after s0 (search apiBase (Web (Inr resp)) q topK))) ''persona'' \<in>
        JStr ` {''aggressive_helper'', ''fact_checker'', ''meme_lord'', ''helpful_sunbae''})"
proof -
  have d: "snd (synthesize generate query hits None) = helpful_sunbae"
    by (simp add: synthesize_def)
  have k: "snd (synthesize generate query hits (Some p)) = p"
    by (simp add: synthesize_def)
  have u: "js_trim q \<noteq> [] \<and> ok resp' \<and> body_json resp' = Inr json \<and> \<not> nullish json \<longrightarrow>
      js_get (data (after s0 (search apiBase (Web (Inr resp')) q topK))) ''persona'' =
        js_get json ''persona''"
    by (simp add: search_web_ok js_get_def)
  have c: "js_trim q \<noteq> [] \<and> ok resp \<and>
    body_json resp = Inr (smart_search_reply posts (synthesize generate query hits requested)
      query_time galls crawled) \<longrightarrow>
      js_get (data (after s0 (search apiBase (Web (Inr resp)) q topK))) ''persona'' \<in>
        JStr ` {''aggressive_helper'', ''fact_checker'', ''meme_lord'', ''helpful_sunbae''}"
    using client_persona [of q resp posts "synthesize generate query hits requested" query_time
        galls crawled s0 apiBase topK]
      persona_id_range [of "snd (synthesize generate query hits requested)"]
    by blast
  show ?thesis
    using UNIV_Persona persona_id_image persona_id_inj PERSONA_META_inj d k u c
      persona_id_range [of "snd (synthesize generate query hits requested)"]
    by blast
qed

theorem persona_closed_witness:
  "synthesize (\<lambda>p q hs. Some ''answer'') ''elden ring'' [1::nat] None =
     (Some ''answer'', helpful_sunbae) \<and>
   js_get (data (after search_init (search ''/api''
     (Web (Inr (response_example
        (smart_search_reply [] (synthesize (\<lambda>p q hs. Some ''answer'') ''elden ring'' [1::nat] None)
           12 [] 0))))
     ''elden ring'' None))) ''persona'' = JStr ''helpful_sunbae'' \<and>
   js_get (data (after search_init (search ''/api''
     (Web (Inr (response_example reply_example))) ''elden ring'' None))) ''persona'' =
     JStr ''helpful_sunbae''"
  using persona_closed [of "\<lambda>p q hs. Some ''answer''" "''elden ring''" "[1::nat]" meme_lord None
      "''elden ring''" "response_example reply_example" reply_example search_init "''/api''" None
      "response_example
        (smart_search_reply [] (synthesize (\<lambda>p q hs. Some ''answer'') ''elden ring'' [1::nat] None)
           12 [] 0)" "[]" 12 "[]" 0]
  by (simp add: synthesize_def response_example_def smart_search_reply_def reply_example_def
      ok_def trim_examples persona_id_def after_def search_def search_web_def
      to_SmartSearchResult_def js_get_def nullish_def coalesce_def Let_def)

text \<open>
  C2 as stated fails on the search hook: a reply whose persona is \<open>troll\<close> gives a
  successful result whose persona is \<open>troll\<close>, none of the four.
\<close>

theorem persona_closed_counterexample:
  "error (after search_init
      (search ''/api'' (Web (Inr (response_example troll_reply))) ''dc'' None)) = None \<and>
   js_get (data (after search_init
      (search ''/api'' (Web (Inr (response_example troll_reply))) ''dc'' None))) ''persona'' =
     JStr ''troll'' \<and>
   JStr ''troll'' \<notin>
     JStr ` {''aggressive_helper'', ''fact_checker'', ''meme_lord'', ''helpful_sunbae''}"
  by (simp add: response_example_def troll_reply_def ok_def trim_examples after_def search_def
      search_web_def to_SmartSearchResult_def js_get_def nullish_def coalesce_def Let_def)

subsection \<open>The crawl job tracker\<close>

lemma distinct_count_le_1: "distinct xs \<Longrightarrow> count_list xs x \<le> 1"
  by (induction xs) auto

lemma exclusive_init: "exclusive tracker_init"
  by (simp add: exclusive_def tracker_init_def)

lemma exclusive_step: "exclusive t \<Longrightarrow> exclusive (tracker_step t ev)"
proof (cases ev)
  case (Request g)
  assume "exclusive t"
  then show ?thesis
    using Request by (auto simp add: exclusive_def crawl_begin_def)
next
  case (Finished g res)
  assume "exclusive t"
  then show ?thesis
    using Finished by (cases res) (auto simp add: exclusive_def crawl_end_def)
qed

lemma exclusive_foldl: "exclusive t \<Longrightarrow> exclusive (foldl tracker_step t evs)"
  by (induction evs arbitrary: t) (simp_all add: exclusive_step)

lemma exclusive_run: "exclusive (tracker_run evs)"
  by (simp add: tracker_run_def exclusive_foldl exclusive_init)

lemma crawl_click_while_running:
  "status st = Running \<Longrightarrow> crawl_click apiBase ToString env st gallId = ([], [])"
  by (simp add: crawl_click_def crawl_button_disabled_def)

text \<open>
  C4. A crawl request for a gallery whose job is running is rejected with
  \<open>CrawlAlreadyRunning\<close> and leaves the tracker as it was: no operation is added, nothing
  is queued, the job is not overwritten. After any sequence of requests and completions
  each gallery has at most one crawl in progress, and its job is running exactly then.
  On the page, a click on the crawl button while the hook's status is running makes no
  call and sets no state.
\<close>

theorem second_crawl_rejected:
  "(job t g = JobRunning \<longrightarrow>
      crawl_begin g t = Inl CrawlAlreadyRunning \<and> tracker_step t (Request g) = t) \<and>
   distinct (in_progress (tracker_run evs)) \<and>
   (job (tracker_run evs) g = JobRunning \<longleftrightarrow> g \<in> set (in_progress (tracker_run evs))) \<and>
   count_list (in_progress (tracker_run evs)) g \<le> 1 \<and>
   (status st = Running \<longrightarrow> crawl_click apiBase ToString env st gallId = ([], []))"
proof -
  have ex: "exclusive (tracker_run evs)" by (rule exclusive_run)
  then have d: "distinct (in_progress (tracker_run evs))"
    and m: "job (tracker_run evs) g = JobRunning \<longleftrightarrow> g \<in> set (in_progress (tracker_run evs))"
    by (auto simp add: exclusive_def)
  have c: "count_list (in_progress (tracker_run evs)) g \<le> 1"
    using d by (rule distinct_count_le_1)
  have r: "job t g = JobRunning \<longrightarrow>
      crawl_begin g t = Inl CrawlAlreadyRunning \<and> tracker_step t (Request g) = t"
    by (simp add: crawl_begin_def)
  have k: "status st = Running \<longrightarrow> crawl_click apiBase ToString env st gallId = ([], [])"
    by (simp add: crawl_click_while_running)
  from r d m c k show ?thesis by blast
qed

theorem second_crawl_rejected_witness:
  "job (tracker_run [Request ''programming'']) ''programming'' = JobRunning \<and>
   crawl_begin ''programming'' (tracker_run [Request ''programming'']) = Inl CrawlAlreadyRunning \<and>
   in_progress (tracker_run [Request ''programming'', Request ''programming'', Request ''game'']) =
     [''game'', ''programming''] \<and>
   job (tracker_run [Request ''programming'', Finished ''programming'' Unreachable])
     ''programming'' = JobError \<and>
   crawl_click ''/api'' (\<lambda>v. ''0'') (Bridge (Inr JNull)) crawl_running ''programming'' = ([], [])"
  using second_crawl_rejected [of "tracker_run [Request ''programming'']" "''programming''" "[]"
      crawl_running "''/api''" "\<lambda>v. ''0''" "Bridge (Inr JNull)" "''programming''"]
  by (simp add: tracker_run_def tracker_init_def crawl_begin_def crawl_end_def crawl_running_def)

subsection \<open>The request-delay gate\<close>

lemma gate_run_length [simp]: "length (gate_run delay g rs) = length rs"
  by (induction rs arbitrary: g) simp_all

lemma gate_run_fst [simp]: "map fst (gate_run delay g rs) = rs"
  by (induction rs arbitrary: g) simp_all

lemma gate_run_after_last:
  "g o' = Some prev \<Longrightarrow> (r, t) \<in> set (gate_run delay g rs) \<Longrightarrow> origin r = o' \<Longrightarrow>
     prev + delay \<le> t"
proof (induction rs arbitrary: g prev)
  case Nil
  then show ?case by simp
next
  case (Cons a rs)
  show ?case
  proof (cases "(r, t) = (a, release delay g a)")
    case True
    then show ?thesis
      using Cons.prems by (simp add: release_def)
  next
    case False
    then have mem: "(r, t) \<in> set (gate_run delay (g(origin a \<mapsto> release delay g a)) rs)"
      using Cons.prems(2) by auto
    show ?thesis
    proof (cases "origin a = o'")
      case True
      then have "(g(origin a \<mapsto> release delay g a)) o' = Some (release delay g a)"
        by simp
      from Cons.IH [OF this mem Cons.prems(3)]
      have "release delay g a + delay \<le> t" .
      moreover have "prev + delay \<le> release delay g a"
        using True Cons.prems(1) by (simp add: release_def)
      ultimately show ?thesis by simp
    next
      case False
      then have "(g(origin a \<mapsto> release delay g a)) o' = Some prev"
        using Cons.prems(1) by simp
      from Cons.IH [OF this mem Cons.prems(3)] show ?thesis .
    qed
  qed
qed

lemma gate_run_separated:
  "i < j \<Longrightarrow> j < length rs \<Longrightarrow> origin (rs ! i) = origin (rs ! j) \<Longrightarrow>
     snd (gate_run delay g rs ! i) + delay \<le> snd (gate_run delay g rs ! j)"
proof (induction rs arbitrary: g i j)
  case Nil
  then show ?case by simp
next
  case (Cons a rs)
  obtain j' where j: "j = Suc j'"
    using Cons.prems(1) by (cases j) simp_all
  let ?g = "g(origin a \<mapsto> release delay g a)"
  show ?case
  proof (cases i)
    case 0
    have len: "j' < length (gate_run delay ?g rs)"
      using Cons.prems(2) j by simp
    have "gate_run delay ?g rs ! j' \<in> set (gate_run delay ?g rs)"
      using len by (rule nth_mem)
    moreover have "fst (gate_run delay ?g rs ! j') = rs ! j'"
      using len gate_run_fst [of delay ?g rs] by (metis gate_run_length nth_map)
    ultimately have mem: "(rs ! j', snd (gate_run delay ?g rs ! j')) \<in> set (gate_run delay ?g rs)"
      by (metis prod.collapse)
    have o: "origin (rs ! j') = origin a"
      using Cons.prems(3) 0 j by simp
    have "?g (origin a) = Some (release delay g a)" by simp
    from gate_run_after_last [OF this mem o]
    show ?thesis using 0 j by simp
  next
    case (Suc i')
    have "i' < j'"
      using Cons.prems(1) Suc j by simp
    moreover have "j' < length rs"
      using Cons.prems(2) j by simp
    moreover have "origin (rs ! i') = origin (rs ! j')"
      using Cons.prems(3) Suc j by simp
    ultimately have "snd (gate_run delay ?g rs ! i') + delay \<le> snd (gate_run delay ?g rs ! j')"
      by (rule Cons.IH)
    then show ?thesis
      using Suc j by simp
  qed
qed

text \<open>
  C8. Of any two requests to the same origin, whichever crawl operations and galleries
  they belong to, the later one is released at least the minimum delay after the earlier
  one: at least 1000 milliseconds with the default, and at least \<open>delay\<close> for a gate
  started in any state with any delay.
\<close>

theorem politeness_interval:
  "length (crawl_schedule rs) = length rs \<and>
   map fst (crawl_schedule rs) = rs \<and>
   (i < j \<and> j < length rs \<and> origin (rs ! i) = origin (rs ! j) \<longrightarrow>
      snd (crawl_schedule rs ! i) + 1000 \<le> snd (crawl_schedule rs ! j)) \<and>
   (i < j \<and> j < length rs \<and> origin (rs ! i) = origin (rs ! j) \<longrightarrow>
      snd (gate_run delay g rs ! i) + delay \<le> snd (gate_run delay g rs ! j))"
  using gate_run_separated [of i j rs delay g] gate_run_separated [of i j rs default_delay Map.empty]
  by (simp add: crawl_schedule_def default_delay_def)

theorem politeness_interval_witness:
  "map snd (crawl_schedule
     [\<lparr>origin = ''gall.dcinside.com'', gallery = ''programming'', ready = 0\<rparr>,
      \<lparr>origin = ''gall.dcinside.com'', gallery = ''game'', ready = 10\<rparr>,
      \<lparr>origin = ''arca.live'', gallery = ''x'', ready = 20\<rparr>,
      \<lparr>origin = ''gall.dcinside.com'', gallery = ''programming'', ready = 5000\<rparr>]) =
     [0, 1000, 20, 5000]"
  using politeness_interval [of
     "[\<lparr>origin = ''gall.dcinside.com'', gallery = ''programming'', ready = 0\<rparr>,
      \<lparr>origin = ''gall.dcinside.com'', gallery = ''game'', ready = 10\<rparr>,
      \<lparr>origin = ''arca.live'', gallery = ''x'', ready = 20\<rparr>,
      \<lparr>origin = ''gall.dcinside.com'', gallery = ''programming'', ready = 5000\<rparr>]" 0 1 1000 Map.empty]
  by (simp add: crawl_schedule_def default_delay_def release_def)

subsection \<open>The sidecar\<close>

lemma tracked_at_most_one: "card (tracked s) \<le> 1"
  by (cases "pythonProcess s") (simp_all add: tracked_def)

lemma well_tracked_step:
  assumes "well_tracked s E"
  shows "well_tracked (step h s ev) (E \<union> ended_from h s [ev])"
proof (cases ev)
  case StartPythonSidecar
  then show ?thesis
    using assms
    by (cases "pythonProcess s")
      (auto simp add: well_tracked_def startPythonSidecar_def Let_def less_Suc_eq)
next
  case StopPythonSidecar
  then show ?thesis
    using assms
    by (cases "pythonProcess s") (auto simp add: well_tracked_def stopPythonSidecar_def)
next
  case (Stdout n d)
  then show ?thesis
    using assms by (auto simp add: well_tracked_def on_stdout_def)
next
  case (Stderr n d)
  then show ?thesis
    using assms by (auto simp add: well_tracked_def on_stderr_def)
next
  case (Close n c)
  then show ?thesis
    using assms by (auto simp add: well_tracked_def on_close_def)
next
  case (SpawnError n m)
  then show ?thesis
    using assms by (auto simp add: well_tracked_def on_error_def)
qed

lemma ended_from_Cons:
  "ended_from h s (ev # evs) = ended_from h s [ev] \<union> ended_from h (step h s ev) evs"
  by simp

lemma well_tracked_foldl:
  "well_tracked s E \<Longrightarrow> well_tracked (foldl (step h) s evs) (E \<union> ended_from h s evs)"
proof (induction evs arbitrary: s E)
  case Nil
  then show ?case by simp
next
  case (Cons ev evs)
  have "well_tracked (step h s ev) (E \<union> ended_from h s [ev])"
    using Cons.prems by (rule well_tracked_step)
  then have "well_tracked (foldl (step h) (step h s ev) evs)
      ((E \<union> ended_from h s [ev]) \<union> ended_from h (step h s ev) evs)"
    by (rule Cons.IH)
  then show ?case
    by (simp only: foldl_Cons ended_from_Cons [of h s ev evs] Un_assoc)
qed

lemma running_flag_sound:
  assumes "isSidecarRunning (run h evs)"
  shows "\<exists>n. pythonProcess (run h evs) = Some n \<and> sidecar_alive h evs n"
proof -
  have "well_tracked sidecar_init {}"
    by (simp add: well_tracked_def sidecar_init_def)
  then have "well_tracked (foldl (step h) sidecar_init evs) ({} \<union> ended_from h sidecar_init evs)"
    by (rule well_tracked_foldl)
  then have w: "well_tracked (run h evs) (ended_from h sidecar_init evs)"
    by (simp add: run_def)
  from assms obtain n where n: "pythonProcess (run h evs) = Some n"
    by (auto simp add: isSidecarRunning_def)
  with w have "sidecar_alive h evs n"
    by (auto simp add: well_tracked_def sidecar_alive_def)
  with n show ?thesis by blast
qed

text \<open>
  C9. The module tracks at most one child. While one is tracked (\<open>isSidecarRunning\<close>
  holds), \<open>startPythonSidecar\<close> changes nothing but the log, to which it adds one line: it
  spawns nothing, signals nothing and keeps the reference. After \<open>stopPythonSidecar\<close>,
  after the close event and after the error event of a child, \<open>isSidecarRunning\<close> is false.
\<close>

theorem sidecar_single_process:
  "card (tracked (run h evs)) \<le> 1 \<and>
   (isSidecarRunning s \<longrightarrow>
      startPythonSidecar h s =
        s\<lparr>emitted := emitted s @ [Log ''[sidecar] Python backend already running.'']\<rparr>) \<and>
   \<not> isSidecarRunning (stopPythonSidecar s) \<and>
   \<not> isSidecarRunning (on_close code s) \<and>
   \<not> isSidecarRunning (on_error msg s) \<and>
   \<not> isSidecarRunning (step h s StopPythonSidecar) \<and>
   (n < length (spawned s) \<longrightarrow>
      \<not> isSidecarRunning (step h s (Close n code)) \<and>
      \<not> isSidecarRunning (step h s (SpawnError n msg)))"
proof -
  have one: "card (tracked (run h evs)) \<le> 1"
    by (rule tracked_at_most_one)
  have keep: "isSidecarRunning s \<longrightarrow>
      startPythonSidecar h s =
        s\<lparr>emitted := emitted s @ [Log ''[sidecar] Python backend already running.'']\<rparr>"
    by (auto simp add: isSidecarRunning_def startPythonSidecar_def)
  have stop: "\<not> isSidecarRunning (stopPythonSidecar s)"
    by (simp add: isSidecarRunning_def stopPythonSidecar_def split: option.splits)
  have close: "\<not> isSidecarRunning (on_close code s)"
    by (simp add: isSidecarRunning_def on_close_def)
  have err: "\<not> isSidecarRunning (on_error msg s)"
    by (simp add: isSidecarRunning_def on_error_def)
  from one keep stop close err show ?thesis
    by simp
qed

theorem sidecar_single_process_witness:
  "isSidecarRunning (run host_example [StartPythonSidecar]) \<and>
   run host_example [StartPythonSidecar, StartPythonSidecar] =
     \<lparr>pythonProcess = Some 0, spawned = [(''python3'', [''/app/backend/main.py''])],
      signalled = [],
      emitted = [Log ''[sidecar] Starting: python3 /app/backend/main.py'',
                Log ''[sidecar] Python backend already running.'']\<rparr> \<and>
   \<not> isSidecarRunning (run host_example [StartPythonSidecar, Close 0 (Some 1)]) \<and>
   \<not> isSidecarRunning (run host_example [StartPythonSidecar, SpawnError 0 ''ENOENT''])"
  using sidecar_single_process [of host_example "[]" "run host_example [StartPythonSidecar]"
      "Some 1" "''ENOENT''" 0]
  by (simp add: run_def sidecar_init_def startPythonSidecar_def isSidecarRunning_def
      getBackendPath_def host_example_def on_close_def on_error_def Let_def)

text \<open>
  C7. \<open>status()\<close> (\<open>getStatus\<close> in the preload script) reports \<open>isSidecarRunning\<close>. Start, stop, start again, and then let the
  close event of the first child arrive (it was sent SIGTERM by the stop): its listener
  clears \<open>pythonProcess\<close>, which by then refers to the second child. The second child has
  been started and has not been stopped, has not exited and has not failed to spawn, and
  the flag is false. (The other direction holds on every trace, see
  \<open>running_flag_sound\<close>: when the flag is true, the tracked child is such a process.)
\<close>

theorem status_after_stale_close:
  "sidecarRunning (getStatus (run h
      [StartPythonSidecar, StopPythonSidecar, StartPythonSidecar, Close 0 None])) = False \<and>
   sidecar_alive h [StartPythonSidecar, StopPythonSidecar, StartPythonSidecar, Close 0 None] 1"
  by (simp add: getStatus_def sidecar_alive_def run_def sidecar_init_def startPythonSidecar_def
      stopPythonSidecar_def on_close_def isSidecarRunning_def Let_def)

end
